theory Spec2Isabelle
  imports Main
begin

section \<open>Errors, provider calls and the provider\<close>

text \<open>
  The two Lambda handlers of the repository (the SES domain verification of
  \<^verbatim>\<open>src/unnamed/part_000\<close> and the ACM validation DNS of
  \<^verbatim>\<open>src/unnamed/part_001\<close>) are asynchronous JavaScript over the AWS SDK.
  A rejected promise or a thrown \<^verbatim>\<open>Error\<close> is a value \<open>Inl e\<close>; every
  request sent to AWS is appended to a log of calls, so that which requests a
  function sends, and in which order, is part of what it returns.
\<close>

datatype error =
    NoZonesFound              \<comment> \<open>\<^verbatim>\<open>NO_MATCH_NAME_ERROR\<close>\<close>
  | NoExactMatch              \<comment> \<open>\<^verbatim>\<open>NO_EXACT_MATCH_NAME_ERROR\<close>\<close>
  | ZoneNotDeterminable       \<comment> \<open>"Unable to determine zone id"\<close>
  | InvalidCertificate        \<comment> \<open>\<^verbatim>\<open>ERR_INVALID_CERTIFICATE\<close>\<close>
  | LookupTimedOut            \<comment> \<open>"Certificate lookup timed out"\<close>
  | InvalidRequestType        \<comment> \<open>"Invalid request type or event"\<close>
  | TypeError                 \<comment> \<open>a TypeError of the JavaScript runtime\<close>
  | ProviderError string      \<comment> \<open>an AWS request that failed, with its message\<close>

record hosted_zone =
  zone_Id :: string
  zone_Name :: string

text \<open>One entry of a change batch: \<^verbatim>\<open>{Action, ResourceRecordSet: {Name,
  ResourceRecords: [{Value}], TTL, Type, MultiValueAnswer, SetIdentifier}}\<close>, the
  last two absent in the ACM handler.\<close>

record change =
  ch_Action :: string
  ch_Name :: string
  ch_Value :: string
  ch_TTL :: nat
  ch_Type :: string
  ch_MultiValueAnswer :: "bool option"
  ch_SetIdentifier :: "string option"

record resource_record =
  rr_Name :: string
  rr_Type :: string
  rr_Value :: string

record validation_option =
  vo_DomainName :: string
  vo_ResourceRecord :: "resource_record option"
  vo_ValidationStatus :: string

record certificate =
  cert_Type :: string
  cert_DomainValidationOptions :: "validation_option list"

record cert_summary =
  cs_CertificateArn :: string
  cs_DomainName :: string

record cert_page =
  page_NextToken :: "string option"
  page_CertificateSummaryList :: "cert_summary list"

text \<open>The requests the code sends, with their parameters. \<open>ListCertificates\<close>
  carries first the poll round in which it is sent (the provider's listing may
  change from one round to the next), then \<^verbatim>\<open>CertificateStatuses\<close> and
  \<^verbatim>\<open>NextToken\<close>.\<close>

datatype call =
    ListHostedZonesByName string
  | TestDNSAnswer string string string
  | GetHostedZone string
  | ChangeResourceRecordSets string "change list" string
  | VerifyDomainIdentity string
  | VerifyDomainDkim string
  | DeleteIdentity string
  | DescribeCertificate string
  | ListCertificates nat "string list" "string option"

text \<open>The AWS services as the code sees them: what each request answers, \<open>Inl\<close>
  the message of a failed request. \<open>AWS_REGION\<close> is \<^verbatim>\<open>process.env.AWS_REGION\<close>.\<close>

record world =
  listHostedZonesByName :: "string \<Rightarrow> string + hosted_zone list"
  testDNSAnswer :: "string \<Rightarrow> string \<Rightarrow> string \<Rightarrow> string + string list"
  getHostedZone :: "string \<Rightarrow> string + hosted_zone"
  changeResourceRecordSets :: "string \<Rightarrow> change list \<Rightarrow> string \<Rightarrow> string + string"
  verifyDomainIdentity :: "string \<Rightarrow> string + string"
  verifyDomainDkim :: "string \<Rightarrow> string + string list"
  deleteIdentity :: "string \<Rightarrow> string + unit"
  describeCertificate :: "string \<Rightarrow> string + certificate"
  listCertificates :: "nat \<Rightarrow> string list \<Rightarrow> string option \<Rightarrow> string + cert_page"
  AWS_REGION :: string

type_synonym 'a io = "(error + 'a) \<times> call list"

definition io_return :: "'a \<Rightarrow> 'a io" where
  "io_return x = (Inr x, [])"

definition io_throw :: "error \<Rightarrow> 'a io" where
  "io_throw e = (Inl e, [])"

text \<open>\<^verbatim>\<open>await\<close> of one SDK request: the request is logged, a failure is raised.\<close>

definition io_call :: "call \<Rightarrow> string + 'a \<Rightarrow> 'a io" where
  "io_call c r = (case r of Inl msg \<Rightarrow> Inl (ProviderError msg) | Inr x \<Rightarrow> Inr x, [c])"

text \<open>Sequencing: an error ends the function, the calls made so far stay made.\<close>

definition io_bind :: "'a io \<Rightarrow> ('a \<Rightarrow> 'b io) \<Rightarrow> 'b io" where
  "io_bind m f =
     (case m of
        (Inl e, l) \<Rightarrow> (Inl e, l)
      | (Inr x, l) \<Rightarrow> (case f x of (r, l') \<Rightarrow> (r, l @ l')))"

section \<open>JavaScript strings\<close>

text \<open>\<^verbatim>\<open>s.replace(pat, rep)\<close> with a string pattern replaces the first occurrence
  of \<open>pat\<close> (the replacement used in the code is empty, so no \<^verbatim>\<open>$\<close> pattern
  occurs).\<close>

fun js_replace :: "string \<Rightarrow> string \<Rightarrow> string \<Rightarrow> string" where
  "js_replace pat rep [] = (if pat = [] then rep else [])"
| "js_replace pat rep (c # cs) =
     (if take (length pat) (c # cs) = pat then rep @ drop (length pat) (c # cs)
      else c # js_replace pat rep cs)"

text \<open>\<^verbatim>\<open>s.split(sep)\<close> for a one-character separator, \<open>cur\<close> the piece being read
  (reversed): as many pieces as separators, plus one.\<close>

fun split_acc :: "char \<Rightarrow> string \<Rightarrow> string \<Rightarrow> string list" where
  "split_acc sep cur [] = [rev cur]"
| "split_acc sep cur (c # cs) =
     (if c = sep then rev cur # split_acc sep [] cs else split_acc sep (c # cur) cs)"

definition js_split :: "char \<Rightarrow> string \<Rightarrow> string list" where
  "js_split sep s = split_acc sep [] s"

definition endsWith_dot :: "string \<Rightarrow> bool" where
  "endsWith_dot s = (s \<noteq> [] \<and> last s = CHR ''.'')"

section \<open>Zone resolution\<close>

text \<open>\<^verbatim>\<open>getZoneIdByName\<close> (the same text in both handlers). \<^verbatim>\<open>Name.slice(0, -1)\<close>
  is \<open>butlast\<close>. The response of \<^verbatim>\<open>listHostedZonesByName\<close> always carries
  \<^verbatim>\<open>HostedZones\<close>, so the test \<^verbatim>\<open>!HostedZones || HostedZones.length < 1\<close> is the
  test for the empty list.\<close>

definition getZoneIdByName :: "world \<Rightarrow> string \<Rightarrow> string io" where
  "getZoneIdByName w domainName =
     io_bind (io_call (ListHostedZonesByName domainName) (listHostedZonesByName w domainName))
       (\<lambda>HostedZones.
          case HostedZones of
            [] \<Rightarrow> io_throw NoZonesFound
          | z # _ \<Rightarrow>
              if \<not> (butlast (zone_Name z) = domainName \<or> zone_Name z = domainName)
              then io_throw NoExactMatch
              else io_return (js_replace ''/hostedzone/'' [] (zone_Id z)))"

text \<open>The loop of \<^verbatim>\<open>getZoneIdByFQDN\<close>: \<open>domainName\<close> is the candidate built so
  far, the list the labels still to prepend (\<^verbatim>\<open>rest\<close> from \<^verbatim>\<open>domainNameIndex\<close>
  on).\<close>

fun zoneWalk :: "world \<Rightarrow> string \<Rightarrow> string \<Rightarrow> string list \<Rightarrow> string io" where
  "zoneWalk w normalizedFQDN domainName [] = io_throw ZoneNotDeterminable"
| "zoneWalk w normalizedFQDN domainName (label # rest) =
     io_bind (getZoneIdByName w (label @ ''.'' @ domainName))
       (\<lambda>zoneId.
          io_bind (io_call (TestDNSAnswer zoneId normalizedFQDN ''NS'')
                     (testDNSAnswer w zoneId normalizedFQDN ''NS''))
            (\<lambda>RecordData.
               if RecordData = [] then io_return zoneId
               else zoneWalk w normalizedFQDN (label @ ''.'' @ domainName) rest))"

definition normalizeFQDN :: "string \<Rightarrow> string" where
  "normalizeFQDN fqdn = (if endsWith_dot fqdn then butlast fqdn else fqdn)"

text \<open>\<^verbatim>\<open>const [tld, ...rest] = normalizedFQDN.split(".").reverse()\<close>; the split of
  a string is never empty.\<close>

definition getZoneIdByFQDN :: "world \<Rightarrow> string \<Rightarrow> string io" where
  "getZoneIdByFQDN w fqdn =
     (case rev (js_split (CHR ''.'') (normalizeFQDN fqdn)) of
        tld # rest \<Rightarrow> zoneWalk w (normalizeFQDN fqdn) tld rest
      | [] \<Rightarrow> io_throw ZoneNotDeterminable)"

text \<open>The candidate names of the walk, in the order in which it tries them.\<close>

fun candidates :: "string \<Rightarrow> string list \<Rightarrow> string list" where
  "candidates domainName [] = []"
| "candidates domainName (label # rest) =
     (label @ ''.'' @ domainName) # candidates (label @ ''.'' @ domainName) rest"

text \<open>A candidate at which the walk goes on to the next one: its zone is found
  and the \<^verbatim>\<open>NS\<close> test for the name answers with record data.\<close>

definition delegated :: "world \<Rightarrow> string \<Rightarrow> string \<Rightarrow> bool" where
  "delegated w normalizedFQDN c =
     (case fst (getZoneIdByName w c) of
        Inl e \<Rightarrow> False
      | Inr zoneId \<Rightarrow>
          (case testDNSAnswer w zoneId normalizedFQDN ''NS'' of
             Inl msg \<Rightarrow> False
           | Inr RecordData \<Rightarrow> RecordData \<noteq> []))"

definition fqdn_candidates :: "string \<Rightarrow> string list" where
  "fqdn_candidates fqdn =
     (case rev (js_split (CHR ''.'') (normalizeFQDN fqdn)) of
        tld # rest \<Rightarrow> candidates tld rest
      | [] \<Rightarrow> [])"

text \<open>A zone name as Route 53 returns it ("Name has a trailing period", says the
  comment in \<^verbatim>\<open>getZoneIdByName\<close>): it ends in one separator, not in two.\<close>

definition fq_name :: "string \<Rightarrow> bool" where
  "fq_name n = (endsWith_dot n \<and> \<not> endsWith_dot (butlast n))"

section \<open>Promises\<close>

text \<open>\<^verbatim>\<open>Promise.all\<close>: every promise of the list has been started before any
  of them is awaited, so all their requests are sent whatever the others answer,
  and the result is the list of values, or the rejection that comes first in
  time. The model takes the answers to come back in the order in which the
  requests were sent. The requests of the promises are then sent in turns: the
  first request of each promise in the order of the list, then the second
  request of each promise that has one, and so on (\<open>transpose\<close> of the
  promises' request lists). The rejection that comes first is that of the promise
  that fails after the fewest requests, the first in the list among equals.\<close>

fun first_rejection :: "'a io list \<Rightarrow> (error \<times> nat) option" where
  "first_rejection [] = None"
| "first_rejection ((Inr x, l) # ps) = first_rejection ps"
| "first_rejection ((Inl e, l) # ps) =
     (case first_rejection ps of
        None \<Rightarrow> Some (e, length l)
      | Some (e', n) \<Rightarrow> if n < length l then Some (e', n) else Some (e, length l))"

fun all_values :: "'a io list \<Rightarrow> 'a list" where
  "all_values [] = []"
| "all_values ((Inr x, l) # ps) = x # all_values ps"
| "all_values ((Inl e, l) # ps) = all_values ps"

definition io_all :: "'a io list \<Rightarrow> 'a list io" where
  "io_all ps =
     (case first_rejection ps of
        Some (e, n) \<Rightarrow> Inl e
      | None \<Rightarrow> Inr (all_values ps),
      concat (transpose (map snd ps)))"

text \<open>\<^verbatim>\<open>Promise.all\<close> of two promises of different types, each of one request:
  both requests are sent, and of two failures the first promise's comes first.\<close>

definition io_both :: "'a io \<Rightarrow> 'b io \<Rightarrow> ('a \<times> 'b) io" where
  "io_both p q =
     (case fst p of
        Inl e \<Rightarrow> Inl e
      | Inr x \<Rightarrow> (case fst q of Inl e \<Rightarrow> Inl e | Inr y \<Rightarrow> Inr (x, y)),
      snd p @ snd q)"

text \<open>\<^verbatim>\<open>promise.catch(() => null)\<close>\<close>

definition io_catch_null :: "'a io \<Rightarrow> 'a option io" where
  "io_catch_null p = (case fst p of Inl e \<Rightarrow> Inr None | Inr x \<Rightarrow> Inr (Some x), snd p)"

section \<open>SES: verifying a domain\<close>

definition UPSERT :: string where
  "UPSERT = ''UPSERT''"

definition DELETE :: string where
  "DELETE = ''DELETE''"

record verify_result =
  vr_domainName :: string
  vr_changeId :: string

definition ses_changes :: "world \<Rightarrow> string \<Rightarrow> string \<Rightarrow> string \<Rightarrow> string list \<Rightarrow> change list" where
  "ses_changes w action domainName VerificationToken DkimTokens =
     \<lparr>ch_Action = action,
      ch_Name = ''_amazonses'' @ ''.'' @ domainName,
      ch_Value = [CHR 0x22] @ VerificationToken @ [CHR 0x22],
      ch_TTL = 60,
      ch_Type = ''TXT'',
      ch_MultiValueAnswer = Some True,
      ch_SetIdentifier = Some (''cfn-ses-verifyDomain-'' @ AWS_REGION w)\<rparr>
     # map (\<lambda>dkimToken.
         \<lparr>ch_Action = action,
          ch_Name = dkimToken @ ''.'' @ ''_domainkey'' @ ''.'' @ domainName,
          ch_Value = dkimToken @ ''.'' @ ''dkim.amazonses.com'',
          ch_TTL = 60,
          ch_Type = ''CNAME'',
          ch_MultiValueAnswer = None,
          ch_SetIdentifier = None\<rparr>) DkimTokens"

definition ses_comment :: string where
  "ses_comment = ''Records to verify domain ownership and DKIM for SES send/receive''"

text \<open>\<^verbatim>\<open>verifyDomain\<close> of \<^verbatim>\<open>src/unnamed/part_000\<close> (lines 52 to 119), in two
  parts. Lines 56 to 61: the zone id and the domain name of the target.\<close>

definition verifyTarget :: "world \<Rightarrow> string \<Rightarrow> (string \<times> string) io" where
  "verifyTarget w hostedZoneIdOrName =
     (let dotSplitLen = length (js_split (CHR ''.'') hostedZoneIdOrName) in
      io_bind (if dotSplitLen = 1 then io_return hostedZoneIdOrName
               else getZoneIdByName w hostedZoneIdOrName)
        (\<lambda>hostedZoneId.
      io_bind (if dotSplitLen = 1
               then io_bind (io_call (GetHostedZone hostedZoneIdOrName)
                               (getHostedZone w hostedZoneIdOrName))
                      (\<lambda>HostedZone. io_return (zone_Name HostedZone))
               else io_return hostedZoneIdOrName)
        (\<lambda>domainName. io_return (hostedZoneId, domainName))))"

text \<open>Lines 63 to 118: the tokens, the identity, the change batch.\<close>

definition verifyRecords :: "world \<Rightarrow> string \<Rightarrow> string \<Rightarrow> string \<Rightarrow> verify_result io" where
  "verifyRecords w hostedZoneId domainName action =
     io_bind (io_both
                (io_call (VerifyDomainIdentity domainName) (verifyDomainIdentity w domainName))
                (io_call (VerifyDomainDkim domainName) (verifyDomainDkim w domainName)))
       (\<lambda>(VerificationToken, DkimTokens).
     io_bind (if action = DELETE
              then io_call (DeleteIdentity domainName) (deleteIdentity w domainName)
              else io_return ())
       (\<lambda>_.
     io_bind (io_call
                (ChangeResourceRecordSets hostedZoneId
                   (ses_changes w action domainName VerificationToken DkimTokens)
                   ses_comment)
                (changeResourceRecordSets w hostedZoneId
                   (ses_changes w action domainName VerificationToken DkimTokens)
                   ses_comment))
       (\<lambda>Id. io_return \<lparr>vr_domainName = domainName, vr_changeId = Id\<rparr>)))"

definition verifyDomain :: "world \<Rightarrow> string \<Rightarrow> string \<Rightarrow> verify_result io" where
  "verifyDomain w hostedZoneIdOrName action =
     io_bind (verifyTarget w hostedZoneIdOrName)
       (\<lambda>(hostedZoneId, domainName). verifyRecords w hostedZoneId domainName action)"

section \<open>SES: the handler\<close>

datatype request_type = Create | Update | Delete | OtherRequest

record ses_properties =
  HostedZoneId :: "string option"
  HostedZoneName :: "string option"

record ses_event =
  ses_RequestType :: request_type
  ses_ResourceProperties :: ses_properties
  ses_OldResourceProperties :: "ses_properties option"
  ses_PhysicalResourceId :: "string option"

text \<open>What the handler answers to CloudFormation: \<^verbatim>\<open>cfnCR.sendSuccess(id, data, event)\<close>
  or \<^verbatim>\<open>cfnCR.sendFailure(err, event)\<close>; a \<^verbatim>\<open>null\<close> data payload is \<open>None\<close>.\<close>

datatype 'd response = Success "string option" "'d option" | Failure error

datatype ses_data =
    ChangeId string                 \<comment> \<open>\<^verbatim>\<open>{changeId}\<close>\<close>
  | UpdateIds string string string  \<comment> \<open>\<^verbatim>\<open>{newChangeId, oldChangeId, oldDomainName}\<close>\<close>

text \<open>The package cfn-custom-resource (\<^verbatim>\<open>cfnCR\<close> in the handlers) is not under
  \<^verbatim>\<open>src/\<close>. Its constant \<^verbatim>\<open>DEFAULT_PHYSICAL_RESOURCE_ID\<close> is, by the comment in both
  handlers, the physical resource id that stands for a resource whose creation
  set none. The sources do not give its value: it is a parameter of the
  handlers, and nothing below depends on what the value is.\<close>

record cfn_custom_resource =
  DEFAULT_PHYSICAL_RESOURCE_ID :: string

text \<open>\<^verbatim>\<open>HostedZoneId ? HostedZoneId : HostedZoneName\<close>: an absent or empty
  \<^verbatim>\<open>HostedZoneId\<close> is falsy.\<close>

definition zoneIdOrName :: "ses_properties \<Rightarrow> string option" where
  "zoneIdOrName props =
     (case HostedZoneId props of
        Some s \<Rightarrow> if s \<noteq> [] then Some s else HostedZoneName props
      | None \<Rightarrow> HostedZoneName props)"

text \<open>\<^verbatim>\<open>verifyDomain\<close> on a property that may be absent: \<^verbatim>\<open>undefined.split\<close> is a
  TypeError, before any request.\<close>

definition verifyDomainOf :: "world \<Rightarrow> string option \<Rightarrow> string \<Rightarrow> verify_result io" where
  "verifyDomainOf w target action =
     (case target of None \<Rightarrow> io_throw TypeError | Some s \<Rightarrow> verifyDomain w s action)"

text \<open>\<^verbatim>\<open>handler\<close> of \<^verbatim>\<open>src/unnamed/part_000\<close> (lines 126 to 175).\<close>

definition ses_handler :: "cfn_custom_resource \<Rightarrow> world \<Rightarrow> ses_event \<Rightarrow>
    ses_data response \<times> call list" where
  "ses_handler cfnCR w event =
     (case ses_RequestType event of
        Create \<Rightarrow>
          (case verifyDomainOf w (zoneIdOrName (ses_ResourceProperties event)) UPSERT of
             (Inr r, l) \<Rightarrow> (Success (Some (vr_domainName r)) (Some (ChangeId (vr_changeId r))), l)
           | (Inl err, l) \<Rightarrow> (Failure err, l))
      | Update \<Rightarrow>
          (case io_bind (case ses_OldResourceProperties event of
                           None \<Rightarrow> io_throw TypeError
                         | Some old \<Rightarrow> verifyDomainOf w (zoneIdOrName old) DELETE)
                  (\<lambda>old.
                io_bind (verifyDomainOf w (zoneIdOrName (ses_ResourceProperties event)) UPSERT)
                  (\<lambda>new. io_return (old, new))) of
             (Inr (old, new), l) \<Rightarrow>
               (Success (Some (vr_domainName new))
                  (Some (UpdateIds (vr_changeId new) (vr_changeId old) (vr_domainName old))), l)
           | (Inl err, l) \<Rightarrow> (Failure err, l))
      | Delete \<Rightarrow>
          (case verifyDomainOf w (zoneIdOrName (ses_ResourceProperties event)) DELETE of
             (Inr r, l) \<Rightarrow> (Success (ses_PhysicalResourceId event) (Some (ChangeId (vr_changeId r))), l)
           | (Inl err, l) \<Rightarrow>
               if ses_PhysicalResourceId event = Some (DEFAULT_PHYSICAL_RESOURCE_ID cfnCR)
               then (Success (ses_PhysicalResourceId event) None, l)
               else (Failure err, l))
      | OtherRequest \<Rightarrow> (Failure InvalidRequestType, []))"

section \<open>ACM: publishing the validation records\<close>

definition AMAZON_ISSUED_CERT_TYPE :: string where
  "AMAZON_ISSUED_CERT_TYPE = ''AMAZON_ISSUED''"

definition PENDING_VALIDATION :: string where
  "PENDING_VALIDATION = ''PENDING_VALIDATION''"

text \<open>\<^verbatim>\<open>Changes\<close> is a JavaScript object used as a dictionary from zone id to the
  list of its changes: here the list of its properties in the order in which
  they were created. \<^verbatim>\<open>Changes[zoneId].push(c)\<close>, after
  \<^verbatim>\<open>if (!Changes[zoneId]) Changes[zoneId] = []\<close>:\<close>

fun addChange :: "(string \<times> change list) list \<Rightarrow> string \<Rightarrow> change \<Rightarrow> (string \<times> change list) list" where
  "addChange [] zoneId c = [(zoneId, [c])]"
| "addChange ((k, cs) # m) zoneId c =
     (if k = zoneId then (k, cs @ [c]) # m else (k, cs) # addChange m zoneId c)"

text \<open>A zone id that names a property of \<^verbatim>\<open>Object.prototype\<close> finds that property
  in the empty object: \<^verbatim>\<open>!Changes[zoneId]\<close> is false, no list is created, and
  \<^verbatim>\<open>push\<close> is not a function.\<close>

definition object_prototype_names :: "string list" where
  "object_prototype_names =
     [''constructor'', ''__defineGetter__'', ''__defineSetter__'', ''hasOwnProperty'',
      ''__lookupGetter__'', ''__lookupSetter__'', ''isPrototypeOf'', ''propertyIsEnumerable'',
      ''toString'', ''valueOf'', ''__proto__'', ''toLocaleString'']"

definition validation_change :: "string \<Rightarrow> resource_record \<Rightarrow> change" where
  "validation_change action rr =
     \<lparr>ch_Action = action, ch_Name = rr_Name rr, ch_Value = rr_Value rr, ch_TTL = 60,
      ch_Type = rr_Type rr, ch_MultiValueAnswer = None, ch_SetIdentifier = None\<rparr>"

text \<open>The second loop of \<^verbatim>\<open>publishCertValidationDNS\<close> (lines 117 to 136), from
  \<^verbatim>\<open>zoneIdIndex\<close> on. Destructuring an absent \<^verbatim>\<open>ResourceRecord\<close> is a TypeError.\<close>

fun groupChanges :: "string \<Rightarrow> string list \<Rightarrow> resource_record option list \<Rightarrow>
    (string \<times> change list) list \<Rightarrow> error + (string \<times> change list) list" where
  "groupChanges action [] resourceRecords Changes = Inr Changes"
| "groupChanges action (zoneId # zoneIds) [] Changes = Inl TypeError"
| "groupChanges action (zoneId # zoneIds) (None # resourceRecords) Changes = Inl TypeError"
| "groupChanges action (zoneId # zoneIds) (Some rr # resourceRecords) Changes =
     (if zoneId \<in> set object_prototype_names then Inl TypeError
      else groupChanges action zoneIds resourceRecords
             (addChange Changes zoneId (validation_change action rr)))"

text \<open>All the changes of all the groups.\<close>

definition all_changes :: "(string \<times> change list) list \<Rightarrow> change set" where
  "all_changes m = (\<Union>kv \<in> set m. set (snd kv))"

text \<open>\<^verbatim>\<open>Object.keys\<close> lists first the keys that are array indices (canonical
  decimal numerals below \<open>2\<^sup>3\<^sup>2 - 1\<close>) in ascending order, then the other keys in
  the order of their creation.\<close>

definition is_digit :: "char \<Rightarrow> bool" where
  "is_digit c = (c \<in> set ''0123456789'')"

definition dec_val :: "string \<Rightarrow> nat" where
  "dec_val s = foldl (\<lambda>a c. 10 * a + (of_char c - 48)) 0 s"

definition is_array_index :: "string \<Rightarrow> bool" where
  "is_array_index s =
     (s \<noteq> [] \<and> list_all is_digit s \<and> (s = ''0'' \<or> take 1 s \<noteq> ''0'') \<and> dec_val s < 2 ^ 32 - 1)"

definition object_entries :: "(string \<times> 'v) list \<Rightarrow> (string \<times> 'v) list" where
  "object_entries m =
     sort_key (\<lambda>kv. dec_val (fst kv)) (filter (\<lambda>kv. is_array_index (fst kv)) m)
       @ filter (\<lambda>kv. \<not> is_array_index (fst kv)) m"

definition validation_comment :: "string \<Rightarrow> string" where
  "validation_comment certificateArn = ''Validation DNS for '' @ certificateArn"

text \<open>One change batch, for the entry \<open>kv\<close> of \<^verbatim>\<open>Changes\<close> (a zone id and its
  changes): the request \<^verbatim>\<open>r53.changeResourceRecordSets({ChangeBatch: {Changes,
  Comment}, HostedZoneId})\<close> and its answer, \<^verbatim>\<open>ChangeInfo.Id\<close> or a failure.\<close>

definition batch_call :: "string \<Rightarrow> string \<times> change list \<Rightarrow> call" where
  "batch_call certificateArn kv =
     ChangeResourceRecordSets (fst kv) (snd kv) (validation_comment certificateArn)"

definition batch_answer :: "world \<Rightarrow> string \<Rightarrow> string \<times> change list \<Rightarrow> string + string" where
  "batch_answer w certificateArn kv =
     changeResourceRecordSets w (fst kv) (snd kv) (validation_comment certificateArn)"

definition submitBatch :: "world \<Rightarrow> string \<Rightarrow> string \<times> change list \<Rightarrow> string io" where
  "submitBatch w certificateArn kv =
     io_call (batch_call certificateArn kv) (batch_answer w certificateArn kv)"

text \<open>Lines 138 to 166: one promise per key of \<^verbatim>\<open>Changes\<close>; for \<^verbatim>\<open>DELETE\<close> each
  is given a \<^verbatim>\<open>catch\<close> that turns its failure into \<^verbatim>\<open>null\<close>.\<close>

definition submitChanges :: "world \<Rightarrow> string \<Rightarrow> string \<Rightarrow> (string \<times> change list) list \<Rightarrow>
    string option list io" where
  "submitChanges w certificateArn action Changes =
     (let publishPromises = map (submitBatch w certificateArn) (object_entries Changes) in
      if action = DELETE then io_all (map io_catch_null publishPromises)
      else io_all (map (\<lambda>p. io_bind p (\<lambda>Id. io_return (Some Id))) publishPromises))"

definition pendingOptions :: "certificate \<Rightarrow> validation_option list" where
  "pendingOptions cert =
     filter (\<lambda>vo. vo_ValidationStatus vo = PENDING_VALIDATION) (cert_DomainValidationOptions cert)"

text \<open>The first loop (lines 104 to 113) skips the options that are not pending.
  Of each pending one it keeps the \<^verbatim>\<open>ResourceRecord\<close> and starts the zone lookup.\<close>

definition zoneIdLookups :: "world \<Rightarrow> validation_option list \<Rightarrow> string io list" where
  "zoneIdLookups w pending = map (\<lambda>vo. getZoneIdByFQDN w (vo_DomainName vo)) pending"

text \<open>\<^verbatim>\<open>publishCertValidationDNS\<close> of \<^verbatim>\<open>src/unnamed/part_001\<close> (lines 89 to 166).
  \<^verbatim>\<open>DomainValidationOptions\<close> is there whenever the type is \<^verbatim>\<open>AMAZON_ISSUED\<close>, the
  only type that reaches the loop over it.\<close>

definition publishCertValidationDNS :: "world \<Rightarrow> string \<Rightarrow> string \<Rightarrow> string option list io" where
  "publishCertValidationDNS w certificateArn action =
     io_bind (io_call (DescribeCertificate certificateArn) (describeCertificate w certificateArn))
       (\<lambda>cert.
          if cert_Type cert \<noteq> AMAZON_ISSUED_CERT_TYPE then io_throw InvalidCertificate
          else
            let resourceRecords = map vo_ResourceRecord (pendingOptions cert);
                zoneIdLookupPromises = zoneIdLookups w (pendingOptions cert)
            in io_bind (io_all zoneIdLookupPromises)
                 (\<lambda>zoneIds.
                    case groupChanges action zoneIds resourceRecords [] of
                      Inl e \<Rightarrow> io_throw e
                    | Inr Changes \<Rightarrow> submitChanges w certificateArn action Changes))"

section \<open>ACM: waiting for the certificate\<close>

text \<open>The two loops of \<^verbatim>\<open>lookupCertificate\<close> need not end (the listing may always
  name a next page, the certificate may never appear), so they run on fuel:
  \<open>None\<close> is a run that has not returned when the fuel is used up.\<close>

definition fio_bind :: "'a io option \<Rightarrow> ('a \<Rightarrow> 'b io option) \<Rightarrow> 'b io option" where
  "fio_bind m f =
     (case m of
        None \<Rightarrow> None
      | Some (Inl e, l) \<Rightarrow> Some (Inl e, l)
      | Some (Inr x, l) \<Rightarrow> (case f x of None \<Rightarrow> None | Some (r, l') \<Rightarrow> Some (r, l @ l')))"

text \<open>JavaScript truthiness of a token that may be absent: \<^verbatim>\<open>undefined\<close> and the
  empty string are falsy.\<close>

definition truthy :: "string option \<Rightarrow> bool" where
  "truthy t = (case t of None \<Rightarrow> False | Some s \<Rightarrow> s \<noteq> [])"

text \<open>The \<^verbatim>\<open>while (nextToken)\<close> loop of \<^verbatim>\<open>lookupCertificateInternal\<close> (lines 190
  to 201); \<open>i\<close> is the poll round.\<close>

fun listAllCertificates :: "nat \<Rightarrow> world \<Rightarrow> nat \<Rightarrow> string option \<Rightarrow> cert_summary list \<Rightarrow>
    cert_summary list io option" where
  "listAllCertificates 0 w i nextToken certs = None"
| "listAllCertificates (Suc fuel) w i nextToken certs =
     (if \<not> truthy nextToken then Some (io_return certs)
      else
        let NextToken = (if nextToken \<noteq> Some ''start'' then nextToken else None) in
        fio_bind (Some (io_call (ListCertificates i [PENDING_VALIDATION] NextToken)
                          (listCertificates w i [PENDING_VALIDATION] NextToken)))
          (\<lambda>page. listAllCertificates fuel w i (page_NextToken page)
                     (certs @ page_CertificateSummaryList page)))"

text \<open>\<^verbatim>\<open>lookupCertificateInternal\<close> (lines 186 to 211). The result \<open>Some arn\<close> is
  the callback having set \<^verbatim>\<open>certificateArn = arn\<close> and called \<^verbatim>\<open>stop()\<close>, \<open>None\<close>
  its having done neither.\<close>

definition lookupCertificateInternal :: "nat \<Rightarrow> world \<Rightarrow> string \<Rightarrow> nat \<Rightarrow> string option io option" where
  "lookupCertificateInternal fuel w domainName iterationNumber =
     fio_bind (listAllCertificates fuel w iterationNumber (Some ''start'') [])
       (\<lambda>certs.
          Some (io_return
            (case find (\<lambda>cert. cs_DomainName cert = domainName) certs of
               None \<Rightarrow> None
             | Some certFindResult \<Rightarrow>
                 if cs_CertificateArn certFindResult \<noteq> []
                 then Some (cs_CertificateArn certFindResult) else None)))"

text \<open>The budget of rounds, if there is one, is used up before round
  \<open>currentIteration\<close>.\<close>

definition budget_spent :: "int option \<Rightarrow> nat \<Rightarrow> bool" where
  "budget_spent iterations currentIteration =
     (case iterations of None \<Rightarrow> False | Some n \<Rightarrow> n < int currentIteration)"

text \<open>
  Modelled from the spec: the polling driver, \<^verbatim>\<open>interval(func, intervalLength,
  options)\<close> of the package interval-promise, is not under \<^verbatim>\<open>src/\<close>. The spec
  (4.2): each round runs the callback once; the deadline is an iteration budget
  and, when "the budget reaches zero without a match", the loop ends; a failing
  round "aborts the loop immediately and propagates" (\<^verbatim>\<open>stopOnError\<close>); with no
  budget it "iterates without a cap". \<open>iterations\<close> is the budget (\<open>None\<close> when
  the option is not set), \<open>currentIteration\<close> counts from 1, and the result is
  what the callback stopped with, \<open>None\<close> when the budget ran out first.
\<close>

fun interval :: "nat \<Rightarrow> (nat \<Rightarrow> 'a option io option) \<Rightarrow> int option \<Rightarrow> nat \<Rightarrow> 'a option io option" where
  "interval 0 func iterations currentIteration =
     (if budget_spent iterations currentIteration then Some (io_return None) else None)"
| "interval (Suc fuel) func iterations currentIteration =
     (if budget_spent iterations currentIteration then Some (io_return None)
      else
        fio_bind (func currentIteration)
          (\<lambda>stopped.
             case stopped of
               Some x \<Rightarrow> Some (io_return (Some x))
             | None \<Rightarrow> interval fuel func iterations (Suc currentIteration)))"


text \<open>\<^verbatim>\<open>lookupCertificate\<close> (lines 174 to 226). \<^verbatim>\<open>timeoutMs\<close> is \<open>None\<close> when the
  argument is not given; \<^verbatim>\<open>if (timeoutMs)\<close> is false for 0 as well, and
  \<^verbatim>\<open>Math.floor(timeoutMs / 1000)\<close> is \<open>div\<close> on integers.\<close>

definition WAIT_BETWEEN_REQS_MS :: int where
  "WAIT_BETWEEN_REQS_MS = 1000"

definition lookupCertificate :: "nat \<Rightarrow> world \<Rightarrow> string \<Rightarrow> int option \<Rightarrow> string io option" where
  "lookupCertificate fuel w domainName timeoutMs =
     (let iterations =
            (case timeoutMs of
               None \<Rightarrow> None
             | Some t \<Rightarrow> if t \<noteq> 0 then Some (t div WAIT_BETWEEN_REQS_MS) else None)
      in fio_bind (interval fuel (lookupCertificateInternal fuel w domainName) iterations 1)
           (\<lambda>certificateArn.
              Some (if truthy certificateArn
                    then (case certificateArn of Some arn \<Rightarrow> io_return arn
                          | None \<Rightarrow> io_throw LookupTimedOut)
                    else io_throw LookupTimedOut)))"

section \<open>ACM: the handler\<close>

record acm_properties =
  CertificateFQDN :: string

record acm_event =
  acm_RequestType :: request_type
  acm_ResourceProperties :: acm_properties
  acm_OldResourceProperties :: "acm_properties option"
  acm_PhysicalResourceId :: "string option"

datatype acm_data =
    ChangeIds "string option list"
      \<comment> \<open>\<^verbatim>\<open>{changeIds}\<close>\<close>
  | UpdateChangeIds "string option list" "string option list" "string option"
      \<comment> \<open>\<^verbatim>\<open>{changeIds, oldChangeIds, oldCertificateArn}\<close>\<close>

definition TIMEOUT_MARGIN_OF_SAFETY_MS :: int where
  "TIMEOUT_MARGIN_OF_SAFETY_MS = 3000"

text \<open>The body of the \<^verbatim>\<open>try\<close> of \<^verbatim>\<open>processCREvent\<close>: \<^verbatim>\<open>userHandlerLogic\<close> (the
  certificate is looked up first, whatever the request), then the method of the
  request type; an unknown type has no method, and calling \<^verbatim>\<open>undefined\<close> is a
  TypeError. \<open>remaining\<close> is \<^verbatim>\<open>context.getRemainingTimeInMillis()\<close>.\<close>

definition userHandlerLogic :: "nat \<Rightarrow> world \<Rightarrow> acm_event \<Rightarrow> int \<Rightarrow>
    (string option \<times> acm_data option) io option" where
  "userHandlerLogic fuel w event remaining =
     (let lambdaTimeout = remaining - TIMEOUT_MARGIN_OF_SAFETY_MS in
      fio_bind (lookupCertificate fuel w (CertificateFQDN (acm_ResourceProperties event))
                  (Some lambdaTimeout))
        (\<lambda>certificateArn.
           case acm_RequestType event of
             Create \<Rightarrow>
               fio_bind (Some (publishCertValidationDNS w certificateArn UPSERT))
                 (\<lambda>changeIds. Some (io_return (Some certificateArn, Some (ChangeIds changeIds))))
           | Update \<Rightarrow>
               (case acm_OldResourceProperties event of
                  None \<Rightarrow> Some (io_throw TypeError)
                | Some old \<Rightarrow>
                    fio_bind (lookupCertificate fuel w (CertificateFQDN old) (Some lambdaTimeout))
                      (\<lambda>oldCertificateArn.
                    fio_bind (Some (publishCertValidationDNS w oldCertificateArn DELETE))
                      (\<lambda>oldChangeIds.
                    fio_bind (Some (publishCertValidationDNS w certificateArn UPSERT))
                      (\<lambda>changeIds.
                         Some (io_return
                           (Some certificateArn,
                            Some (UpdateChangeIds changeIds oldChangeIds
                                    (acm_PhysicalResourceId event))))))))
           | Delete \<Rightarrow>
               fio_bind (Some (publishCertValidationDNS w certificateArn DELETE))
                 (\<lambda>changeIds.
                    Some (io_return (acm_PhysicalResourceId event, Some (ChangeIds changeIds))))
           | OtherRequest \<Rightarrow> Some (io_throw TypeError)))"

text \<open>\<^verbatim>\<open>processCREvent\<close> (lines 267 to 288).\<close>

definition processCREvent :: "cfn_custom_resource \<Rightarrow> nat \<Rightarrow> world \<Rightarrow> acm_event \<Rightarrow> int \<Rightarrow>
    (acm_data response \<times> call list) option" where
  "processCREvent cfnCR fuel w event remaining =
     (case userHandlerLogic fuel w event remaining of
        None \<Rightarrow> None
      | Some (Inr (pid, data), l) \<Rightarrow> Some (Success pid data, l)
      | Some (Inl err, l) \<Rightarrow>
          if acm_RequestType event = Delete \<and>
             acm_PhysicalResourceId event = Some (DEFAULT_PHYSICAL_RESOURCE_ID cfnCR)
          then Some (Success (acm_PhysicalResourceId event) None, l)
          else Some (Failure err, l))"

text \<open>The requests of the zone resolution.\<close>

fun is_zone_call :: "call \<Rightarrow> bool" where
  "is_zone_call (ListHostedZonesByName d) = True"
| "is_zone_call (TestDNSAnswer z n t) = True"
| "is_zone_call c = False"

section \<open>An example provider\<close>

text \<open>Two hosted zones, \<^verbatim>\<open>example.com\<close> (\<^verbatim>\<open>Z1\<close>) and its delegated subdomain
  \<^verbatim>\<open>sub.example.com\<close> (\<^verbatim>\<open>Z2\<close>), whose \<^verbatim>\<open>NS\<close> tests answer as Route 53 does (a zone
  has \<^verbatim>\<open>NS\<close> records at its own name and at each delegation); a zone
  \<^verbatim>\<open>sub.other.org\<close> (\<^verbatim>\<open>Z4\<close>) whose parent \<^verbatim>\<open>other.org\<close> is not hosted; a zone
  \<^verbatim>\<open>plain.net\<close> (\<^verbatim>\<open>Z5\<close>) whose \<^verbatim>\<open>NS\<close> test answers with no record, as the mock of the
  repository's tests does; and the nearest match \<^verbatim>\<open>sap.example.com\<close> for a query of
  \<^verbatim>\<open>ap.example.com\<close>.\<close>

definition ex_listHostedZonesByName :: "string \<Rightarrow> string + hosted_zone list" where
  "ex_listHostedZonesByName d =
     (if d = ''example.com'' \<or> d = ''example.com.''
      then Inr [\<lparr>zone_Id = ''/hostedzone/Z1'', zone_Name = ''example.com.''\<rparr>]
      else if d = ''sub.example.com'' \<or> d = ''sub.example.com.''
      then Inr [\<lparr>zone_Id = ''/hostedzone/Z2'', zone_Name = ''sub.example.com.''\<rparr>]
      else if d = ''ap.example.com'' \<or> d = ''ap.example.com.''
      then Inr [\<lparr>zone_Id = ''/hostedzone/Z3'', zone_Name = ''sap.example.com.''\<rparr>]
      else if d = ''sub.other.org'' \<or> d = ''sub.other.org.''
      then Inr [\<lparr>zone_Id = ''/hostedzone/Z4'', zone_Name = ''sub.other.org.''\<rparr>]
      else if d = ''plain.net'' \<or> d = ''plain.net.''
      then Inr [\<lparr>zone_Id = ''/hostedzone/Z5'', zone_Name = ''plain.net.''\<rparr>]
      else if d = ''down.example''
      then Inl ''ServiceUnavailable''
      else Inr [])"

definition ex_testDNSAnswer :: "string \<Rightarrow> string \<Rightarrow> string \<Rightarrow> string + string list" where
  "ex_testDNSAnswer zoneId name type =
     (if type \<noteq> ''NS'' then Inl ''InvalidInput''
      else if zoneId = ''Z1'' \<and>
              (name = ''example.com'' \<or> name = ''sub.example.com'' \<or> name = ''www.sub.example.com'')
      then Inr [''ns-1.awsdns-01.org.'']
      else if zoneId = ''Z2'' \<and> name = ''sub.example.com''
      then Inr [''ns-2.awsdns-02.org.'']
      else Inr [])"

definition ex_getHostedZone :: "string \<Rightarrow> string + hosted_zone" where
  "ex_getHostedZone zoneId =
     (if zoneId = ''Z1'' then Inr \<lparr>zone_Id = ''/hostedzone/Z1'', zone_Name = ''example.com.''\<rparr>
      else Inl ''NoSuchHostedZone'')"

text \<open>Change batches are refused in zone \<^verbatim>\<open>Z5\<close>.\<close>

definition ex_changeResourceRecordSets :: "string \<Rightarrow> change list \<Rightarrow> string \<Rightarrow> string + string" where
  "ex_changeResourceRecordSets zoneId changes comment =
     (if zoneId = ''Z5'' then Inl ''InvalidChangeBatch'' else Inr (''/change/C-'' @ zoneId))"

definition ex_validation_option :: "string \<Rightarrow> string \<Rightarrow> validation_option" where
  "ex_validation_option name status =
     \<lparr>vo_DomainName = name,
      vo_ResourceRecord =
        Some \<lparr>rr_Name = ''_x.'' @ name, rr_Type = ''CNAME'', rr_Value = ''_y.acm-validations.aws''\<rparr>,
      vo_ValidationStatus = status\<rparr>"

text \<open>Certificates: \<^verbatim>\<open>arn:two\<close> with pending validations in \<^verbatim>\<open>Z1\<close> and \<^verbatim>\<open>Z5\<close> and
  one that has succeeded, \<^verbatim>\<open>arn:issued\<close> with none pending, \<^verbatim>\<open>arn:imported\<close> not
  issued by Amazon.\<close>

definition ex_describeCertificate :: "string \<Rightarrow> string + certificate" where
  "ex_describeCertificate arn =
     (if arn = ''arn:two''
      then Inr \<lparr>cert_Type = ''AMAZON_ISSUED'',
                cert_DomainValidationOptions =
                  [ex_validation_option ''www.plain.net'' ''PENDING_VALIDATION'',
                   ex_validation_option ''old.example.com'' ''SUCCESS'',
                   ex_validation_option ''www.example.com'' ''PENDING_VALIDATION'']\<rparr>
      else if arn = ''arn:issued''
      then Inr \<lparr>cert_Type = ''AMAZON_ISSUED'',
                cert_DomainValidationOptions =
                  [ex_validation_option ''old.example.com'' ''SUCCESS'']\<rparr>
      else if arn = ''arn:imported''
      then Inr \<lparr>cert_Type = ''IMPORTED'', cert_DomainValidationOptions = []\<rparr>
      else Inl ''ResourceNotFoundException'')"

text \<open>The listing of pending certificates has one page; the certificate for
  \<^verbatim>\<open>www.example.com\<close> is listed from the second round on.\<close>

definition ex_listCertificates :: "nat \<Rightarrow> string list \<Rightarrow> string option \<Rightarrow> string + cert_page" where
  "ex_listCertificates i statuses token =
     Inr \<lparr>page_NextToken = None,
          page_CertificateSummaryList =
            \<lparr>cs_CertificateArn = ''arn:imported'', cs_DomainName = ''imported.example.com''\<rparr>
            # (if 2 \<le> i
               then [\<lparr>cs_CertificateArn = ''arn:two'', cs_DomainName = ''www.example.com''\<rparr>]
               else [])\<rparr>"

definition ex_world :: world where
  "ex_world =
     \<lparr>listHostedZonesByName = ex_listHostedZonesByName,
      testDNSAnswer = ex_testDNSAnswer,
      getHostedZone = ex_getHostedZone,
      changeResourceRecordSets = ex_changeResourceRecordSets,
      verifyDomainIdentity = (\<lambda>d. Inr ''token''),
      verifyDomainDkim = (\<lambda>d. Inr [''k1'', ''k2'', ''k3'']),
      deleteIdentity = (\<lambda>d. Inr ()),
      describeCertificate = ex_describeCertificate,
      listCertificates = ex_listCertificates,
      AWS_REGION = ''us-east-1''\<rparr>"

text \<open>The certificate \<^verbatim>\<open>arn:two\<close>, its pending options and the groups of changes
  made from them.\<close>

definition ex_pending :: "validation_option list" where
  "ex_pending =
     [ex_validation_option ''www.plain.net'' ''PENDING_VALIDATION'',
      ex_validation_option ''www.example.com'' ''PENDING_VALIDATION'']"

definition ex_cert :: certificate where
  "ex_cert =
     \<lparr>cert_Type = ''AMAZON_ISSUED'',
      cert_DomainValidationOptions =
        [ex_validation_option ''www.plain.net'' ''PENDING_VALIDATION'',
         ex_validation_option ''old.example.com'' ''SUCCESS'',
         ex_validation_option ''www.example.com'' ''PENDING_VALIDATION'']\<rparr>"

definition ex_record :: "string \<Rightarrow> resource_record" where
  "ex_record name =
     \<lparr>rr_Name = ''_x.'' @ name, rr_Type = ''CNAME'', rr_Value = ''_y.acm-validations.aws''\<rparr>"

definition ex_groups :: "string \<Rightarrow> (string \<times> change list) list" where
  "ex_groups action =
     [(''Z5'', [validation_change action (ex_record ''www.plain.net'')]),
      (''Z1'', [validation_change action (ex_record ''www.example.com'')])]"

text \<open>Delete events that carry the id of a resource that was never created,
  whatever that id is.\<close>

definition ex_ses_delete :: "cfn_custom_resource \<Rightarrow> string \<Rightarrow> ses_event" where
  "ex_ses_delete cfnCR zoneId =
     \<lparr>ses_RequestType = Delete,
      ses_ResourceProperties = \<lparr>HostedZoneId = Some zoneId, HostedZoneName = None\<rparr>,
      ses_OldResourceProperties = None,
      ses_PhysicalResourceId = Some (DEFAULT_PHYSICAL_RESOURCE_ID cfnCR)\<rparr>"

definition ex_acm_delete :: "cfn_custom_resource \<Rightarrow> string \<Rightarrow> acm_event" where
  "ex_acm_delete cfnCR fqdn =
     \<lparr>acm_RequestType = Delete,
      acm_ResourceProperties = \<lparr>CertificateFQDN = fqdn\<rparr>,
      acm_OldResourceProperties = None,
      acm_PhysicalResourceId = Some (DEFAULT_PHYSICAL_RESOURCE_ID cfnCR)\<rparr>"

section \<open>Properties of the zone resolution\<close>

lemma io_bind_simps [simp]:
  "io_bind (Inl e, l) f = (Inl e, l)"
  "io_bind (Inr x, l) f = (fst (f x), l @ snd (f x))"
  by (simp_all add: io_bind_def split: prod.splits)

lemma js_replace_prefix: "pat \<noteq> [] \<Longrightarrow> js_replace pat rep (pat @ s) = rep @ s"
  by (cases pat) simp_all

lemma getZoneIdByName_eq:
  "getZoneIdByName w d =
     (case listHostedZonesByName w d of
        Inl msg \<Rightarrow> (Inl (ProviderError msg), [ListHostedZonesByName d])
      | Inr [] \<Rightarrow> (Inl NoZonesFound, [ListHostedZonesByName d])
      | Inr (z # zs) \<Rightarrow>
          (if butlast (zone_Name z) = d \<or> zone_Name z = d
           then Inr (js_replace ''/hostedzone/'' [] (zone_Id z)) else Inl NoExactMatch,
           [ListHostedZonesByName d]))"
  by (simp add: getZoneIdByName_def io_call_def io_throw_def io_return_def
      split: sum.splits list.splits)

lemma butlast_eq_iff: "endsWith_dot n \<Longrightarrow> (butlast n = d) = (n = d @ ''.'')"
  unfolding endsWith_dot_def
  by (metis append_butlast_last_id butlast_snoc)

lemma ex_listing [simp]: "listHostedZonesByName ex_world = ex_listHostedZonesByName"
  by (simp add: ex_world_def)

lemma ex_ns [simp]: "testDNSAnswer ex_world = ex_testDNSAnswer"
  by (simp add: ex_world_def)

text \<open>
  \<^bold>\<open>C5.\<close> Given the listing the provider returns for the queried name, whose first
  zone name ends in the separator as every name of Route 53 does (the code takes
  the name's last character off without looking at it):
  \<^verbatim>\<open>getZoneIdByName\<close> fails with \<open>NoZonesFound\<close> exactly when the listing is empty;
  it fails with \<open>NoExactMatch\<close> exactly when the first zone's name is neither the
  queried name nor the queried name followed by one separator; otherwise it
  returns the first zone's id with its first \<^verbatim>\<open>/hostedzone/\<close> removed, which for an
  id that starts with \<^verbatim>\<open>/hostedzone/\<close> is the rest of the id.
\<close>

theorem getZoneIdByName_result:
  assumes "listHostedZonesByName w d = Inr zs"
      and "list_all (\<lambda>z. endsWith_dot (zone_Name z)) (take 1 zs)"
  shows "(fst (getZoneIdByName w d) = Inl NoZonesFound \<longleftrightarrow> zs = []) \<and>
         (fst (getZoneIdByName w d) = Inl NoExactMatch \<longleftrightarrow>
            zs \<noteq> [] \<and> zone_Name (hd zs) \<noteq> d \<and> zone_Name (hd zs) \<noteq> d @ ''.'') \<and>
         (fst (getZoneIdByName w d) \<noteq> Inl NoZonesFound \<and>
          fst (getZoneIdByName w d) \<noteq> Inl NoExactMatch \<longrightarrow>
            fst (getZoneIdByName w d) = Inr (js_replace ''/hostedzone/'' [] (zone_Id (hd zs)))) \<and>
         (zone_Id (hd zs) = ''/hostedzone/'' @ i \<longrightarrow>
            js_replace ''/hostedzone/'' [] (zone_Id (hd zs)) = i)"
proof (cases zs)
  case Nil
  have "js_replace ''/hostedzone/'' [] (''/hostedzone/'' @ i) = i"
    using js_replace_prefix [of "''/hostedzone/''" "[]" i] by simp
  with Nil assms(1) show ?thesis by (auto simp add: getZoneIdByName_eq)
next
  case (Cons z rest)
  with assms(2) have "endsWith_dot (zone_Name z)" by simp
  then have b: "(butlast (zone_Name z) = d) = (zone_Name z = d @ ''.'')"
    by (rule butlast_eq_iff)
  have p: "js_replace ''/hostedzone/'' [] (''/hostedzone/'' @ i) = i"
    using js_replace_prefix [of "''/hostedzone/''" "[]" i] by simp
  from assms(1) Cons b p show ?thesis
    by (auto simp add: getZoneIdByName_eq)
qed

theorem getZoneIdByName_result_witness:
  "listHostedZonesByName ex_world ''example.com'' =
     Inr [\<lparr>zone_Id = ''/hostedzone/Z1'', zone_Name = ''example.com.''\<rparr>] \<and>
   fst (getZoneIdByName ex_world ''example.com'') = Inr ''Z1'' \<and>
   fst (getZoneIdByName ex_world ''ap.example.com'') = Inl NoExactMatch \<and>
   fst (getZoneIdByName ex_world ''other.org'') = Inl NoZonesFound"
proof -
  have l1: "listHostedZonesByName ex_world ''example.com'' =
      Inr [\<lparr>zone_Id = ''/hostedzone/Z1'', zone_Name = ''example.com.''\<rparr>]"
    by (simp add: ex_listHostedZonesByName_def)
  have l2: "listHostedZonesByName ex_world ''ap.example.com'' =
      Inr [\<lparr>zone_Id = ''/hostedzone/Z3'', zone_Name = ''sap.example.com.''\<rparr>]"
    by (simp add: ex_listHostedZonesByName_def)
  have l3: "listHostedZonesByName ex_world ''other.org'' = Inr []"
    by (simp add: ex_listHostedZonesByName_def)
  from getZoneIdByName_result [OF l1, of "''Z1''"]
  have 1: "fst (getZoneIdByName ex_world ''example.com'') = Inr ''Z1''"
    by (simp add: endsWith_dot_def)
  from getZoneIdByName_result [OF l2, of "''Z3''"]
  have 2: "fst (getZoneIdByName ex_world ''ap.example.com'') = Inl NoExactMatch"
    by (simp add: endsWith_dot_def)
  from getZoneIdByName_result [OF l3, of "[]"]
  have 3: "fst (getZoneIdByName ex_world ''other.org'') = Inl NoZonesFound"
    by simp
  from l1 1 2 3 show ?thesis by simp
qed

text \<open>
  \<^bold>\<open>C7.\<close> For a domain name \<open>d\<close> without trailing separator, and a provider that
  answers the query for \<open>d\<close> with trailing separator as it answers the query for
  \<open>d\<close> and names its zones as Route 53 does (ending in one separator):
  \<^verbatim>\<open>getZoneIdByName\<close> gives the same result, a zone id or an error, for \<open>d\<close> with
  the separator as for \<open>d\<close> without it.
\<close>

theorem getZoneIdByName_trailing_separator:
  assumes "\<not> endsWith_dot d"
      and "listHostedZonesByName w (d @ ''.'') = listHostedZonesByName w d"
      and "case listHostedZonesByName w d of
             Inl msg \<Rightarrow> True
           | Inr zs \<Rightarrow> list_all (\<lambda>z. fq_name (zone_Name z)) (take 1 zs)"
  shows "fst (getZoneIdByName w (d @ ''.'')) = fst (getZoneIdByName w d)"
proof (cases "listHostedZonesByName w d")
  case (Inl msg)
  with assms(2) show ?thesis by (simp add: getZoneIdByName_eq)
next
  case (Inr zs)
  show ?thesis
  proof (cases zs)
    case Nil
    with Inr assms(2) show ?thesis by (simp add: getZoneIdByName_eq)
  next
    case (Cons z rest)
    with Inr assms(3) have fq: "fq_name (zone_Name z)" by simp
    then have e: "endsWith_dot (zone_Name z)" and ne: "\<not> endsWith_dot (butlast (zone_Name z))"
      by (simp_all add: fq_name_def)
    have 1: "butlast (zone_Name z) \<noteq> d @ ''.''"
      using ne by (auto simp add: endsWith_dot_def)
    have 2: "zone_Name z \<noteq> d"
      using e assms(1) by auto
    have 3: "(butlast (zone_Name z) = d) = (zone_Name z = d @ ''.'')"
      using e by (rule butlast_eq_iff)
    from Inr Cons assms(2) 1 2 3 show ?thesis
      by (simp add: getZoneIdByName_eq)
  qed
qed

theorem getZoneIdByName_trailing_separator_witness:
  "\<not> endsWith_dot ''example.com'' \<and>
   fst (getZoneIdByName ex_world ''example.com.'') = fst (getZoneIdByName ex_world ''example.com'') \<and>
   fst (getZoneIdByName ex_world ''example.com'') = Inr ''Z1'' \<and>
   fst (getZoneIdByName ex_world ''ap.example.com.'') = fst (getZoneIdByName ex_world ''ap.example.com'') \<and>
   fst (getZoneIdByName ex_world ''ap.example.com'') = Inl NoExactMatch"
proof -
  have a: "\<not> endsWith_dot ''example.com''" and a': "\<not> endsWith_dot ''ap.example.com''"
    by (simp_all add: endsWith_dot_def)
  have b: "listHostedZonesByName ex_world (''example.com'' @ ''.'') =
      listHostedZonesByName ex_world ''example.com''"
    and b': "listHostedZonesByName ex_world (''ap.example.com'' @ ''.'') =
      listHostedZonesByName ex_world ''ap.example.com''"
    by (simp_all add: ex_listHostedZonesByName_def)
  have c: "case listHostedZonesByName ex_world ''example.com'' of
             Inl msg \<Rightarrow> True
           | Inr zs \<Rightarrow> list_all (\<lambda>z. fq_name (zone_Name z)) (take 1 zs)"
    and c': "case listHostedZonesByName ex_world ''ap.example.com'' of
             Inl msg \<Rightarrow> True
           | Inr zs \<Rightarrow> list_all (\<lambda>z. fq_name (zone_Name z)) (take 1 zs)"
    by (simp_all add: ex_listHostedZonesByName_def fq_name_def endsWith_dot_def)
  have d: "fst (getZoneIdByName ex_world ''example.com'') = Inr ''Z1''"
    and d': "fst (getZoneIdByName ex_world ''ap.example.com'') = Inl NoExactMatch"
    by (simp_all add: getZoneIdByName_eq ex_listHostedZonesByName_def)
  from getZoneIdByName_trailing_separator [OF a b c]
    getZoneIdByName_trailing_separator [OF a' b' c'] a d d'
  show ?thesis by simp
qed

lemma snd_getZoneIdByName: "snd (getZoneIdByName w d) = [ListHostedZonesByName d]"
  by (simp add: getZoneIdByName_eq split: sum.splits list.splits)

lemma getZoneIdByName_not_undeterminable:
  "fst (getZoneIdByName w d) \<noteq> Inl ZoneNotDeterminable"
  by (simp add: getZoneIdByName_eq split: sum.splits list.splits)

declare zoneWalk.simps [simp del]

lemma zoneWalk_Nil [simp]: "zoneWalk w n dn [] = (Inl ZoneNotDeterminable, [])"
  by (simp add: zoneWalk.simps(1) io_throw_def)

lemma zoneWalk_lookup_error:
  assumes "fst (getZoneIdByName w (label @ ''.'' @ dn)) = Inl e"
  shows "zoneWalk w n dn (label # rest) = (Inl e, [ListHostedZonesByName (label @ ''.'' @ dn)])"
proof -
  from assms have "getZoneIdByName w (label @ ''.'' @ dn) =
      (Inl e, [ListHostedZonesByName (label @ ''.'' @ dn)])"
    using snd_getZoneIdByName [of w "label @ ''.'' @ dn"] by (simp add: prod_eq_iff)
  then show ?thesis by (simp add: zoneWalk.simps(2))
qed

lemma zoneWalk_resolved:
  assumes "fst (getZoneIdByName w (label @ ''.'' @ dn)) = Inr z"
  shows "zoneWalk w n dn (label # rest) =
     (case testDNSAnswer w z n ''NS'' of
        Inl msg \<Rightarrow> (Inl (ProviderError msg),
                     [ListHostedZonesByName (label @ ''.'' @ dn), TestDNSAnswer z n ''NS''])
      | Inr rd \<Rightarrow>
          if rd = []
          then (Inr z, [ListHostedZonesByName (label @ ''.'' @ dn), TestDNSAnswer z n ''NS''])
          else (fst (zoneWalk w n (label @ ''.'' @ dn) rest),
                [ListHostedZonesByName (label @ ''.'' @ dn), TestDNSAnswer z n ''NS'']
                  @ snd (zoneWalk w n (label @ ''.'' @ dn) rest)))"
proof -
  from assms have "getZoneIdByName w (label @ ''.'' @ dn) =
      (Inr z, [ListHostedZonesByName (label @ ''.'' @ dn)])"
    using snd_getZoneIdByName [of w "label @ ''.'' @ dn"] by (simp add: prod_eq_iff)
  then show ?thesis
    by (simp add: zoneWalk.simps(2) io_call_def io_return_def split: sum.splits)
qed

lemma zoneWalk_delegated:
  assumes "delegated w n (label @ ''.'' @ dn)"
  shows "fst (zoneWalk w n dn (label # rest)) = fst (zoneWalk w n (label @ ''.'' @ dn) rest)"
    and "\<exists>z. snd (zoneWalk w n dn (label # rest)) =
           [ListHostedZonesByName (label @ ''.'' @ dn), TestDNSAnswer z n ''NS'']
             @ snd (zoneWalk w n (label @ ''.'' @ dn) rest)"
  using assms
  by (auto simp add: delegated_def zoneWalk_resolved split: sum.splits)

lemma zoneWalk_log_nonempty:
  assumes "rest \<noteq> []"
  shows "snd (zoneWalk w n dn rest) \<noteq> []"
proof -
  from assms obtain label rest' where r: "rest = label # rest'" by (cases rest) auto
  show ?thesis
  proof (cases "fst (getZoneIdByName w (label @ ''.'' @ dn))")
    case (Inl e)
    then show ?thesis using r by (simp add: zoneWalk_lookup_error)
  next
    case (Inr z)
    then show ?thesis using r by (simp add: zoneWalk_resolved split: sum.splits)
  qed
qed

lemma zoneWalk_stops_at_failed_lookup:
  assumes "candidates dn rest = pre @ c # post"
      and "list_all (delegated w n) pre"
      and "fst (getZoneIdByName w c) = Inl e"
  shows "fst (zoneWalk w n dn rest) = Inl e \<and>
         last (snd (zoneWalk w n dn rest)) = ListHostedZonesByName c"
  using assms
proof (induction pre arbitrary: dn rest)
  case Nil
  then obtain label rest' where r: "rest = label # rest'" and c: "c = label @ ''.'' @ dn"
    by (cases rest) auto
  with Nil.prems(3) show ?case
    by (simp add: zoneWalk_lookup_error)
next
  case (Cons p pre)
  then obtain label rest' where r: "rest = label # rest'" and p: "p = label @ ''.'' @ dn"
    and tl: "candidates (label @ ''.'' @ dn) rest' = pre @ c # post"
    by (cases rest) auto
  from Cons.prems(2) p have d: "delegated w n (label @ ''.'' @ dn)"
    and rest: "list_all (delegated w n) pre"
    by simp_all
  from Cons.IH [OF tl rest Cons.prems(3)]
  have ih: "fst (zoneWalk w n (label @ ''.'' @ dn) rest') = Inl e"
    "last (snd (zoneWalk w n (label @ ''.'' @ dn) rest')) = ListHostedZonesByName c"
    by simp_all
  from tl have ne: "rest' \<noteq> []" by (cases rest') auto
  then have lne: "snd (zoneWalk w n (label @ ''.'' @ dn) rest') \<noteq> []"
    by (rule zoneWalk_log_nonempty)
  from zoneWalk_delegated [OF d, of rest'] ih lne r show ?case
    by auto
qed

lemma zoneWalk_undeterminable_iff:
  "fst (zoneWalk w n dn rest) = Inl ZoneNotDeterminable \<longleftrightarrow>
     list_all (delegated w n) (candidates dn rest)"
proof (induction rest arbitrary: dn)
  case Nil
  show ?case by simp
next
  case (Cons label rest)
  show ?case
  proof (cases "fst (getZoneIdByName w (label @ ''.'' @ dn))")
    case (Inl e)
    then have "e \<noteq> ZoneNotDeterminable"
      using getZoneIdByName_not_undeterminable [of w "label @ ''.'' @ dn"] by auto
    with Inl show ?thesis
      by (simp add: zoneWalk_lookup_error delegated_def)
  next
    case (Inr z)
    with Cons.IH [of "label @ ''.'' @ dn"] show ?thesis
      by (simp add: zoneWalk_resolved delegated_def split: sum.splits)
  qed
qed

lemma zoneWalk_success_tested:
  "fst (zoneWalk w n dn rest) = Inr z \<Longrightarrow>
     snd (zoneWalk w n dn rest) \<noteq> [] \<and>
     last (snd (zoneWalk w n dn rest)) = TestDNSAnswer z n ''NS'' \<and>
     testDNSAnswer w z n ''NS'' = Inr []"
proof (induction rest arbitrary: dn)
  case Nil
  then show ?case by simp
next
  case (Cons label rest)
  show ?case
  proof (cases "fst (getZoneIdByName w (label @ ''.'' @ dn))")
    case (Inl e)
    with Cons.prems show ?thesis
      by (simp add: zoneWalk_lookup_error)
  next
    case (Inr z')
    show ?thesis
    proof (cases "testDNSAnswer w z' n ''NS''")
      case (Inl msg)
      with Inr Cons.prems show ?thesis
        by (simp add: zoneWalk_resolved)
    next
      case rd: (Inr rd)
      show ?thesis
      proof (cases "rd = []")
        case True
        with Inr rd Cons.prems show ?thesis
          by (simp add: zoneWalk_resolved)
      next
        case False
        with Inr rd Cons.prems have "fst (zoneWalk w n (label @ ''.'' @ dn) rest) = Inr z"
          by (simp add: zoneWalk_resolved)
        from Cons.IH [OF this] Inr rd False show ?thesis
          by (simp add: zoneWalk_resolved)
      qed
    qed
  qed
qed

lemma split_acc_nonempty: "split_acc sep cur s \<noteq> []"
  by (induction s arbitrary: cur) auto

lemma split_acc_join:
  "concat (map (\<lambda>l. l @ [sep]) (butlast (split_acc sep cur s))) @ last (split_acc sep cur s)
     = rev cur @ s"
  by (induction s arbitrary: cur) (auto simp add: split_acc_nonempty)

lemma length_split_acc: "length (split_acc sep cur s) = Suc (count_list s sep)"
  by (induction s arbitrary: cur) auto

lemma length_js_split_one: "(length (js_split sep s) = 1) = (sep \<notin> set s)"
  by (simp add: js_split_def length_split_acc count_list_0_iff)

lemma candidates_nonempty: "(candidates dn rest = []) = (rest = [])"
  by (cases rest) auto

lemma candidates_last:
  "rest \<noteq> [] \<Longrightarrow>
     last (candidates dn rest) = concat (map (\<lambda>l. l @ ''.'') (rev rest)) @ dn"
proof (induction rest arbitrary: dn)
  case Nil
  then show ?case by simp
next
  case (Cons label rest)
  show ?case
  proof (cases "rest = []")
    case True
    then show ?thesis by simp
  next
    case False
    with Cons.IH [OF False, of "label @ ''.'' @ dn"] show ?thesis
      by (simp add: candidates_nonempty)
  qed
qed

lemma fqdn_candidates_last:
  assumes "CHR ''.'' \<in> set (normalizeFQDN fqdn)"
  shows "fqdn_candidates fqdn \<noteq> [] \<and> last (fqdn_candidates fqdn) = normalizeFQDN fqdn"
proof -
  let ?n = "normalizeFQDN fqdn"
  let ?ps = "js_split (CHR ''.'') ?n"
  have ne: "?ps \<noteq> []" by (simp add: js_split_def split_acc_nonempty)
  then obtain tld rest where tr: "rev ?ps = tld # rest" by (cases "rev ?ps") auto
  from assms have "length ?ps \<noteq> 1"
    using length_js_split_one [of "CHR ''.''" ?n] by blast
  with tr have rne: "rest \<noteq> []" by (cases rest) (auto dest: arg_cong [where f = length])
  from tr have ps: "?ps = rev rest @ [tld]" by (metis rev.simps(2) rev_rev_ident)
  have "concat (map (\<lambda>l. l @ ''.'') (butlast ?ps)) @ last ?ps = ?n"
    using split_acc_join [of "CHR ''.''" "[]" ?n] by (simp add: js_split_def)
  with ps have j: "concat (map (\<lambda>l. l @ ''.'') (rev rest)) @ tld = ?n" by simp
  from tr have fc: "fqdn_candidates fqdn = candidates tld rest"
    by (simp add: fqdn_candidates_def)
  from candidates_last [OF rne, of tld] j fc rne show ?thesis
    by (simp add: candidates_nonempty)
qed

lemma getZoneIdByFQDN_walk:
  "\<exists>tld rest. getZoneIdByFQDN w fqdn = zoneWalk w (normalizeFQDN fqdn) tld rest \<and>
     fqdn_candidates fqdn = candidates tld rest"
proof -
  have "js_split (CHR ''.'') (normalizeFQDN fqdn) \<noteq> []"
    by (simp add: js_split_def split_acc_nonempty)
  then obtain tld rest where "rev (js_split (CHR ''.'') (normalizeFQDN fqdn)) = tld # rest"
    by (cases "rev (js_split (CHR ''.'') (normalizeFQDN fqdn))") auto
  then show ?thesis by (auto simp add: getZoneIdByFQDN_def fqdn_candidates_def)
qed

lemma zoneWalk_last_candidate:
  assumes "candidates dn rest = pre @ [c]"
      and "list_all (delegated w n) pre"
      and "fst (getZoneIdByName w c) = Inr z"
      and "testDNSAnswer w z n ''NS'' = Inr rd"
  shows "fst (zoneWalk w n dn rest) = (if rd = [] then Inr z else Inl ZoneNotDeterminable) \<and>
         TestDNSAnswer z n ''NS'' \<in> set (snd (zoneWalk w n dn rest))"
  using assms
proof (induction pre arbitrary: dn rest)
  case Nil
  then obtain label rest' where r: "rest = label # rest'" and c: "c = label @ ''.'' @ dn"
    and e: "candidates (label @ ''.'' @ dn) rest' = []"
    by (cases rest) auto
  from e have "rest' = []" by (simp add: candidates_nonempty)
  with r c Nil.prems(3,4) show ?case
    by (simp add: zoneWalk_resolved)
next
  case (Cons p pre)
  then obtain label rest' where r: "rest = label # rest'" and p: "p = label @ ''.'' @ dn"
    and tl: "candidates (label @ ''.'' @ dn) rest' = pre @ [c]"
    by (cases rest) auto
  from Cons.prems(2) p have d: "delegated w n (label @ ''.'' @ dn)"
    and rest: "list_all (delegated w n) pre"
    by simp_all
  from Cons.IH [OF tl rest Cons.prems(3,4)] zoneWalk_delegated [OF d, of rest'] r show ?case
    by auto
qed

text \<open>Evaluating the example provider.\<close>

lemma ex_names [simp]:
  "getZoneIdByName ex_world ''example.com'' = (Inr ''Z1'', [ListHostedZonesByName ''example.com''])"
  "getZoneIdByName ex_world ''sub.example.com'' =
     (Inr ''Z2'', [ListHostedZonesByName ''sub.example.com''])"
  "getZoneIdByName ex_world ''www.sub.example.com'' =
     (Inl NoZonesFound, [ListHostedZonesByName ''www.sub.example.com''])"
  "getZoneIdByName ex_world ''other.org'' = (Inl NoZonesFound, [ListHostedZonesByName ''other.org''])"
  "getZoneIdByName ex_world ''sub.other.org'' = (Inr ''Z4'', [ListHostedZonesByName ''sub.other.org''])"
  "getZoneIdByName ex_world ''plain.net'' = (Inr ''Z5'', [ListHostedZonesByName ''plain.net''])"
  by (simp_all add: getZoneIdByName_eq ex_listHostedZonesByName_def)

lemma ex_split [simp]:
  "js_split (CHR ''.'') ''example.com'' = [''example'', ''com'']"
  "js_split (CHR ''.'') ''www.example.com'' = [''www'', ''example'', ''com'']"
  "js_split (CHR ''.'') ''www.sub.example.com'' = [''www'', ''sub'', ''example'', ''com'']"
  "js_split (CHR ''.'') ''www.sub.other.org'' = [''www'', ''sub'', ''other'', ''org'']"
  "js_split (CHR ''.'') ''plain.net'' = [''plain'', ''net'']"
  "js_split (CHR ''.'') ''www.plain.net'' = [''www'', ''plain'', ''net'']"
  by (simp_all add: js_split_def)

lemma ex_normalize [simp]:
  "normalizeFQDN ''example.com'' = ''example.com''"
  "normalizeFQDN ''www.example.com'' = ''www.example.com''"
  "normalizeFQDN ''www.sub.example.com'' = ''www.sub.example.com''"
  "normalizeFQDN ''www.sub.other.org'' = ''www.sub.other.org''"
  "normalizeFQDN ''plain.net'' = ''plain.net''"
  "normalizeFQDN ''www.plain.net'' = ''www.plain.net''"
  by (simp_all add: normalizeFQDN_def endsWith_dot_def)

text \<open>
  \<^bold>\<open>C1\<close>, as the code has it. The walk of \<^verbatim>\<open>getZoneIdByFQDN\<close> awaits
  \<^verbatim>\<open>getZoneIdByName\<close> with no \<^verbatim>\<open>catch\<close>: at the first candidate whose exact-name
  lookup fails, with \<open>NoZonesFound\<close> or with any other error, the walk ends; that
  error is the result and the failed lookup is the last request sent, so no
  deeper candidate is tried. The result is \<open>ZoneNotDeterminable\<close> exactly when
  every candidate resolved to a zone whose \<^verbatim>\<open>NS\<close> test for the name answered with
  record data (among them, when there is no candidate at all).
\<close>

theorem getZoneIdByFQDN_lookup_error_propagates:
  "(fqdn_candidates fqdn = pre @ c # post \<and>
    list_all (delegated w (normalizeFQDN fqdn)) pre \<and>
    fst (getZoneIdByName w c) = Inl e \<longrightarrow>
      fst (getZoneIdByFQDN w fqdn) = Inl e \<and>
      last (snd (getZoneIdByFQDN w fqdn)) = ListHostedZonesByName c) \<and>
   (fst (getZoneIdByFQDN w fqdn) = Inl ZoneNotDeterminable \<longleftrightarrow>
      list_all (delegated w (normalizeFQDN fqdn)) (fqdn_candidates fqdn))"
proof -
  obtain tld rest where
    walk: "getZoneIdByFQDN w fqdn = zoneWalk w (normalizeFQDN fqdn) tld rest"
    and cs: "fqdn_candidates fqdn = candidates tld rest"
    using getZoneIdByFQDN_walk by blast
  show ?thesis
    unfolding walk cs
    using zoneWalk_stops_at_failed_lookup [of tld rest pre c post w "normalizeFQDN fqdn" e]
      zoneWalk_undeterminable_iff [of w "normalizeFQDN fqdn" tld rest]
    by blast
qed

theorem getZoneIdByFQDN_lookup_error_propagates_witness:
  "fqdn_candidates ''www.sub.other.org'' = [] @ ''other.org'' # [''sub.other.org'', ''www.sub.other.org''] \<and>
   fst (getZoneIdByName ex_world ''other.org'') = Inl NoZonesFound \<and>
   fst (getZoneIdByFQDN ex_world ''www.sub.other.org'') = Inl NoZonesFound \<and>
   last (snd (getZoneIdByFQDN ex_world ''www.sub.other.org'')) = ListHostedZonesByName ''other.org'' \<and>
   fst (getZoneIdByFQDN ex_world ''example.com'') = Inl ZoneNotDeterminable"
proof -
  have c: "fqdn_candidates ''www.sub.other.org'' =
      [] @ ''other.org'' # [''sub.other.org'', ''www.sub.other.org'']"
    by (simp add: fqdn_candidates_def)
  have d: "list_all (delegated ex_world (normalizeFQDN ''www.sub.other.org'')) []"
    by simp
  have e: "fst (getZoneIdByName ex_world ''other.org'') = Inl NoZonesFound"
    by simp
  have f: "list_all (delegated ex_world (normalizeFQDN ''example.com''))
      (fqdn_candidates ''example.com'')"
    by (simp add: fqdn_candidates_def delegated_def ex_testDNSAnswer_def)
  from getZoneIdByFQDN_lookup_error_propagates
    [of "''www.sub.other.org''" "[]" "''other.org''" "[''sub.other.org'', ''www.sub.other.org'']"
      ex_world NoZonesFound] c d e
  have 1: "fst (getZoneIdByFQDN ex_world ''www.sub.other.org'') = Inl NoZonesFound \<and>
      last (snd (getZoneIdByFQDN ex_world ''www.sub.other.org'')) = ListHostedZonesByName ''other.org''"
    by blast
  from getZoneIdByFQDN_lookup_error_propagates [of "''example.com''" _ _ _ ex_world] f
  have 2: "fst (getZoneIdByFQDN ex_world ''example.com'') = Inl ZoneNotDeterminable"
    by blast
  from c e 1 2 show ?thesis by blast
qed

text \<open>The claim as the spec has it fails: \<^verbatim>\<open>other.org\<close> is not hosted, the walk for
  \<^verbatim>\<open>www.sub.other.org\<close> ends there with \<open>NoZonesFound\<close> after that one request,
  though the walk from the next candidate on resolves the name to zone \<^verbatim>\<open>Z4\<close>.\<close>

theorem getZoneIdByFQDN_NoZonesFound_counterexample:
  "fst (getZoneIdByName ex_world ''other.org'') = Inl NoZonesFound \<and>
   getZoneIdByFQDN ex_world ''www.sub.other.org'' =
     (Inl NoZonesFound, [ListHostedZonesByName ''other.org'']) \<and>
   fst (zoneWalk ex_world ''www.sub.other.org'' ''other.org'' [''sub'', ''www'']) = Inr ''Z4''"
  by (simp add: getZoneIdByFQDN_def zoneWalk.simps(2) io_call_def io_return_def
      ex_testDNSAnswer_def)

text \<open>
  \<^bold>\<open>C2\<close>, as the code has it. \<^verbatim>\<open>getZoneIdByFQDN\<close> tests the delegation at every
  candidate it resolves, the name itself included: whenever it returns a zone id,
  the last request it sent is the \<^verbatim>\<open>NS\<close> test for the (normalized) name in that
  zone, and the test answered with no record data. For a name of two labels or
  more that is itself a hosted zone's name, once the walk has come to it (every
  shorter candidate is delegated), the \<^verbatim>\<open>NS\<close> test for the name in its own zone is
  sent, and the zone's id is returned if the test answers with no record data;
  if it answers with records, the result is \<open>ZoneNotDeterminable\<close>.
\<close>

theorem getZoneIdByFQDN_always_tests_delegation:
  "(fst (getZoneIdByFQDN w fqdn) = Inr z \<longrightarrow>
      snd (getZoneIdByFQDN w fqdn) \<noteq> [] \<and>
      last (snd (getZoneIdByFQDN w fqdn)) = TestDNSAnswer z (normalizeFQDN fqdn) ''NS'' \<and>
      testDNSAnswer w z (normalizeFQDN fqdn) ''NS'' = Inr []) \<and>
   (CHR ''.'' \<in> set (normalizeFQDN fqdn) \<and>
    list_all (delegated w (normalizeFQDN fqdn)) (butlast (fqdn_candidates fqdn)) \<and>
    fst (getZoneIdByName w (normalizeFQDN fqdn)) = Inr z' \<and>
    testDNSAnswer w z' (normalizeFQDN fqdn) ''NS'' = Inr rd \<longrightarrow>
      fst (getZoneIdByFQDN w fqdn) = (if rd = [] then Inr z' else Inl ZoneNotDeterminable) \<and>
      TestDNSAnswer z' (normalizeFQDN fqdn) ''NS'' \<in> set (snd (getZoneIdByFQDN w fqdn)))"
proof -
  let ?n = "normalizeFQDN fqdn"
  obtain tld rest where
    walk: "getZoneIdByFQDN w fqdn = zoneWalk w ?n tld rest"
    and cs: "fqdn_candidates fqdn = candidates tld rest"
    using getZoneIdByFQDN_walk by blast
  have 1: "fst (getZoneIdByFQDN w fqdn) = Inr z \<longrightarrow>
      snd (getZoneIdByFQDN w fqdn) \<noteq> [] \<and>
      last (snd (getZoneIdByFQDN w fqdn)) = TestDNSAnswer z ?n ''NS'' \<and>
      testDNSAnswer w z ?n ''NS'' = Inr []"
    unfolding walk using zoneWalk_success_tested [of w ?n tld rest z] by blast
  have 2: "fst (getZoneIdByFQDN w fqdn) = (if rd = [] then Inr z' else Inl ZoneNotDeterminable) \<and>
        TestDNSAnswer z' ?n ''NS'' \<in> set (snd (getZoneIdByFQDN w fqdn))"
    if dot: "CHR ''.'' \<in> set ?n"
      and del: "list_all (delegated w ?n) (butlast (fqdn_candidates fqdn))"
      and z: "fst (getZoneIdByName w ?n) = Inr z'"
      and rd: "testDNSAnswer w z' ?n ''NS'' = Inr rd"
  proof -
    from fqdn_candidates_last [OF dot]
    have "fqdn_candidates fqdn = butlast (fqdn_candidates fqdn) @ [?n]"
      by (metis append_butlast_last_id)
    with cs have "candidates tld rest = butlast (fqdn_candidates fqdn) @ [?n]" by simp
    from zoneWalk_last_candidate [OF this del z rd] show ?thesis
      unfolding walk .
  qed
  from 1 2 show ?thesis by blast
qed

theorem getZoneIdByFQDN_always_tests_delegation_witness:
  "fst (getZoneIdByName ex_world ''plain.net'') = Inr ''Z5'' \<and>
   testDNSAnswer ex_world ''Z5'' ''plain.net'' ''NS'' = Inr [] \<and>
   fst (getZoneIdByFQDN ex_world ''plain.net'') = Inr ''Z5'' \<and>
   last (snd (getZoneIdByFQDN ex_world ''plain.net'')) = TestDNSAnswer ''Z5'' ''plain.net'' ''NS'' \<and>
   fst (getZoneIdByName ex_world ''example.com'') = Inr ''Z1'' \<and>
   testDNSAnswer ex_world ''Z1'' ''example.com'' ''NS'' = Inr [''ns-1.awsdns-01.org.''] \<and>
   fst (getZoneIdByFQDN ex_world ''example.com'') = Inl ZoneNotDeterminable \<and>
   TestDNSAnswer ''Z1'' ''example.com'' ''NS'' \<in> set (snd (getZoneIdByFQDN ex_world ''example.com''))"
proof -
  have a: "CHR ''.'' \<in> set (normalizeFQDN ''plain.net'')"
    and a': "CHR ''.'' \<in> set (normalizeFQDN ''example.com'')"
    by simp_all
  have b: "list_all (delegated ex_world (normalizeFQDN ''plain.net''))
      (butlast (fqdn_candidates ''plain.net''))"
    and b': "list_all (delegated ex_world (normalizeFQDN ''example.com''))
      (butlast (fqdn_candidates ''example.com''))"
    by (simp_all add: fqdn_candidates_def)
  have c: "fst (getZoneIdByName ex_world (normalizeFQDN ''plain.net'')) = Inr ''Z5''"
    and c': "fst (getZoneIdByName ex_world (normalizeFQDN ''example.com'')) = Inr ''Z1''"
    by simp_all
  have d: "testDNSAnswer ex_world ''Z5'' (normalizeFQDN ''plain.net'') ''NS'' = Inr []"
    and d': "testDNSAnswer ex_world ''Z1'' (normalizeFQDN ''example.com'') ''NS'' =
      Inr [''ns-1.awsdns-01.org.'']"
    by (simp_all add: ex_testDNSAnswer_def)
  from getZoneIdByFQDN_always_tests_delegation
    [of ex_world "''plain.net''" "''Z5''" "''Z5''" "[]"] a b c d
  have 1: "fst (getZoneIdByFQDN ex_world ''plain.net'') = Inr ''Z5'' \<and>
      last (snd (getZoneIdByFQDN ex_world ''plain.net'')) = TestDNSAnswer ''Z5'' ''plain.net'' ''NS''"
    by simp
  from getZoneIdByFQDN_always_tests_delegation
    [of ex_world "''example.com''" "''Z1''" "''Z1''" "[''ns-1.awsdns-01.org.'']"] a' b' c' d'
  have 2: "fst (getZoneIdByFQDN ex_world ''example.com'') = Inl ZoneNotDeterminable \<and>
      TestDNSAnswer ''Z1'' ''example.com'' ''NS'' \<in> set (snd (getZoneIdByFQDN ex_world ''example.com''))"
    by simp
  from 1 2 c c' d d' show ?thesis by simp
qed

text \<open>The claim as the spec has it fails: for \<^verbatim>\<open>example.com\<close>, the name of zone
  \<^verbatim>\<open>Z1\<close>, the \<^verbatim>\<open>NS\<close> test is sent, and as the zone has \<^verbatim>\<open>NS\<close> records at its own name
  the zone is not returned; for \<^verbatim>\<open>plain.net\<close> the zone is returned, after the
  \<^verbatim>\<open>NS\<close> test.\<close>

theorem getZoneIdByFQDN_exact_name_counterexample:
  "fst (getZoneIdByName ex_world ''example.com'') = Inr ''Z1'' \<and>
   getZoneIdByFQDN ex_world ''example.com'' =
     (Inl ZoneNotDeterminable,
      [ListHostedZonesByName ''example.com'', TestDNSAnswer ''Z1'' ''example.com'' ''NS'']) \<and>
   getZoneIdByFQDN ex_world ''plain.net'' =
     (Inr ''Z5'', [ListHostedZonesByName ''plain.net'', TestDNSAnswer ''Z5'' ''plain.net'' ''NS''])"
  by (simp add: getZoneIdByFQDN_def zoneWalk.simps(2) io_call_def io_return_def io_throw_def
      ex_testDNSAnswer_def)

section \<open>Properties of the SES verification\<close>

lemma io_bind_return [simp]: "io_bind (io_return x) f = f x"
  by (simp add: io_return_def)

lemma io_bind_throw [simp]: "io_bind (io_throw e) f = io_throw e"
  by (simp add: io_throw_def)

lemma io_bind_assoc: "io_bind (io_bind m f) g = io_bind m (\<lambda>x. io_bind (f x) g)"
  by (cases m) (auto simp add: io_bind_def split: sum.splits prod.splits)

lemma verifyTarget_id:
  assumes "CHR ''.'' \<notin> set s"
  shows "verifyTarget w s =
     io_bind (io_call (GetHostedZone s) (getHostedZone w s))
       (\<lambda>HostedZone. io_return (s, zone_Name HostedZone))"
proof -
  from assms have "length (js_split (CHR ''.'') s) = 1"
    using length_js_split_one [of "CHR ''.''" s] by blast
  then show ?thesis
    by (simp add: verifyTarget_def io_bind_assoc)
qed

lemma verifyTarget_name:
  assumes "CHR ''.'' \<in> set s"
  shows "verifyTarget w s = io_bind (getZoneIdByName w s) (\<lambda>hostedZoneId. io_return (hostedZoneId, s))"
proof -
  from assms have "length (js_split (CHR ''.'') s) \<noteq> 1"
    using length_js_split_one [of "CHR ''.''" s] by blast
  then show ?thesis
    by (simp add: verifyTarget_def)
qed

text \<open>
  \<^bold>\<open>C9.\<close> \<^verbatim>\<open>verifyDomain\<close> takes its argument for a hosted zone id exactly when it
  holds no dot: then the zone is fetched by that id (\<^verbatim>\<open>getHostedZone\<close>), the id is
  used as it is and the domain name is the name of the fetched zone; with a dot in
  it the argument is the domain name, and the zone id is the result of the
  exact-name lookup \<^verbatim>\<open>getZoneIdByName\<close>.
\<close>

theorem verifyDomain_id_or_name:
  "(CHR ''.'' \<notin> set s \<longrightarrow>
      verifyDomain w s action =
        io_bind (io_call (GetHostedZone s) (getHostedZone w s))
          (\<lambda>HostedZone. verifyRecords w s (zone_Name HostedZone) action)) \<and>
   (CHR ''.'' \<in> set s \<longrightarrow>
      verifyDomain w s action =
        io_bind (getZoneIdByName w s) (\<lambda>hostedZoneId. verifyRecords w hostedZoneId s action))"
proof (intro conjI impI)
  assume "CHR ''.'' \<notin> set s"
  then have "verifyTarget w s =
      io_bind (io_call (GetHostedZone s) (getHostedZone w s))
        (\<lambda>HostedZone. io_return (s, zone_Name HostedZone))"
    by (rule verifyTarget_id)
  then show "verifyDomain w s action =
      io_bind (io_call (GetHostedZone s) (getHostedZone w s))
        (\<lambda>HostedZone. verifyRecords w s (zone_Name HostedZone) action)"
    by (simp add: verifyDomain_def io_bind_assoc)
next
  assume "CHR ''.'' \<in> set s"
  then have "verifyTarget w s =
      io_bind (getZoneIdByName w s) (\<lambda>hostedZoneId. io_return (hostedZoneId, s))"
    by (rule verifyTarget_name)
  then show "verifyDomain w s action =
      io_bind (getZoneIdByName w s) (\<lambda>hostedZoneId. verifyRecords w hostedZoneId s action)"
    by (simp add: verifyDomain_def io_bind_assoc)
qed

lemma ex_getHostedZone_simp [simp]: "getHostedZone ex_world = ex_getHostedZone"
  by (simp add: ex_world_def)

lemma ex_ses [simp]:
  "verifyDomainIdentity ex_world d = Inr ''token''"
  "verifyDomainDkim ex_world d = Inr [''k1'', ''k2'', ''k3'']"
  "deleteIdentity ex_world d = Inr ()"
  "changeResourceRecordSets ex_world = ex_changeResourceRecordSets"
  by (simp_all add: ex_world_def)

lemma verifyRecords_eq:
  "verifyRecords w z d action =
     (case verifyDomainIdentity w d of
        Inl m \<Rightarrow> (Inl (ProviderError m), [VerifyDomainIdentity d, VerifyDomainDkim d])
      | Inr tok \<Rightarrow>
          (case verifyDomainDkim w d of
             Inl m \<Rightarrow> (Inl (ProviderError m), [VerifyDomainIdentity d, VerifyDomainDkim d])
           | Inr dkim \<Rightarrow>
               io_bind (Inr (), [VerifyDomainIdentity d, VerifyDomainDkim d])
                 (\<lambda>_. io_bind (if action = DELETE
                                then io_call (DeleteIdentity d) (deleteIdentity w d)
                                else io_return ())
                   (\<lambda>_. io_bind (io_call
                            (ChangeResourceRecordSets z (ses_changes w action d tok dkim) ses_comment)
                            (changeResourceRecordSets w z (ses_changes w action d tok dkim) ses_comment))
                      (\<lambda>Id. io_return \<lparr>vr_domainName = d, vr_changeId = Id\<rparr>)))))"
  by (simp add: verifyRecords_def io_both_def io_call_def split: sum.splits)

lemma verifyRecords_DELETE_log:
  "snd (verifyRecords w z d DELETE) =
     [VerifyDomainIdentity d, VerifyDomainDkim d] @
     (case verifyDomainIdentity w d of
        Inl m \<Rightarrow> []
      | Inr tok \<Rightarrow>
          (case verifyDomainDkim w d of
             Inl m \<Rightarrow> []
           | Inr dkim \<Rightarrow>
               DeleteIdentity d #
               (case deleteIdentity w d of
                  Inl m \<Rightarrow> []
                | Inr u \<Rightarrow> [ChangeResourceRecordSets z (ses_changes w DELETE d tok dkim) ses_comment])))"
  by (simp add: verifyRecords_eq io_call_def io_return_def split: sum.splits)

lemma verifyDomain_log:
  "fst (verifyTarget w s) = Inr (z, d) \<Longrightarrow>
     snd (verifyDomain w s action) = snd (verifyTarget w s) @ snd (verifyRecords w z d action)"
  by (cases "verifyTarget w s") (simp add: verifyDomain_def)

text \<open>
  \<^bold>\<open>C8.\<close> The requests of \<^verbatim>\<open>verifyDomain(zone, DELETE)\<close>, once the target is
  resolved to a zone id \<open>z\<close> and a domain \<open>d\<close>: the two token requests
  (\<^verbatim>\<open>verifyDomainIdentity\<close>, \<^verbatim>\<open>verifyDomainDkim\<close>) are sent although the action is a
  deletion; when both have answered, \<^verbatim>\<open>deleteIdentity\<close> for \<open>d\<close> is sent; and only
  after it has succeeded the change batch is submitted, last. The batch deletes
  the records whose names and values are built from the tokens: the DKIM records
  are named \<^verbatim>\<open><token>._domainkey.<domain>\<close>.
\<close>

theorem verifyDomain_DELETE_requests:
  "(fst (verifyTarget w s) = Inr (z, d) \<longrightarrow>
      snd (verifyDomain w s DELETE) =
        snd (verifyTarget w s) @ [VerifyDomainIdentity d, VerifyDomainDkim d] @
        (case verifyDomainIdentity w d of
           Inl m \<Rightarrow> []
         | Inr tok \<Rightarrow>
             (case verifyDomainDkim w d of
                Inl m \<Rightarrow> []
              | Inr dkim \<Rightarrow>
                  DeleteIdentity d #
                  (case deleteIdentity w d of
                     Inl m \<Rightarrow> []
                   | Inr u \<Rightarrow>
                       [ChangeResourceRecordSets z (ses_changes w DELETE d tok dkim) ses_comment])))) \<and>
   map ch_Name (ses_changes w DELETE d tok dkim) =
     (''_amazonses.'' @ d) # map (\<lambda>k. k @ ''._domainkey.'' @ d) dkim \<and>
   map ch_Value (ses_changes w DELETE d tok dkim) =
     ([CHR 0x22] @ tok @ [CHR 0x22]) # map (\<lambda>k. k @ ''.dkim.amazonses.com'') dkim \<and>
   list_all (\<lambda>c. ch_Action c = DELETE) (ses_changes w DELETE d tok dkim)"
proof -
  have 1: "fst (verifyTarget w s) = Inr (z, d) \<longrightarrow>
      snd (verifyDomain w s DELETE) = snd (verifyTarget w s) @ snd (verifyRecords w z d DELETE)"
    using verifyDomain_log [of w s z d DELETE] by blast
  have 2: "map ch_Name (ses_changes w DELETE d tok dkim) =
     (''_amazonses.'' @ d) # map (\<lambda>k. k @ ''._domainkey.'' @ d) dkim"
    by (simp add: ses_changes_def)
  have 3: "map ch_Value (ses_changes w DELETE d tok dkim) =
     ([CHR 0x22] @ tok @ [CHR 0x22]) # map (\<lambda>k. k @ ''.dkim.amazonses.com'') dkim"
    by (simp add: ses_changes_def)
  have 4: "list_all (\<lambda>c. ch_Action c = DELETE) (ses_changes w DELETE d tok dkim)"
    by (simp add: ses_changes_def list_all_iff)
  from 1 2 3 4 show ?thesis
    by (simp only: verifyRecords_DELETE_log)
qed

lemma ex_target [simp]:
  "verifyTarget ex_world ''Z1'' = (Inr (''Z1'', ''example.com.''), [GetHostedZone ''Z1''])"
  "verifyTarget ex_world ''example.com'' =
     (Inr (''Z1'', ''example.com''), [ListHostedZonesByName ''example.com''])"
  "verifyTarget ex_world ''plain.net'' =
     (Inr (''Z5'', ''plain.net''), [ListHostedZonesByName ''plain.net''])"
  "verifyTarget ex_world ''Z0'' = (Inl (ProviderError ''NoSuchHostedZone''), [GetHostedZone ''Z0''])"
  by (simp_all add: verifyTarget_id verifyTarget_name io_call_def io_return_def
      ex_getHostedZone_def)

theorem verifyDomain_id_or_name_witness:
  "CHR ''.'' \<notin> set ''Z1'' \<and> CHR ''.'' \<in> set ''example.com'' \<and>
   verifyDomain ex_world ''Z1'' UPSERT =
     (Inr \<lparr>vr_domainName = ''example.com.'', vr_changeId = ''/change/C-Z1''\<rparr>,
      [GetHostedZone ''Z1'', VerifyDomainIdentity ''example.com.'', VerifyDomainDkim ''example.com.'',
       ChangeResourceRecordSets ''Z1''
         (ses_changes ex_world UPSERT ''example.com.'' ''token'' [''k1'', ''k2'', ''k3''])
         ses_comment]) \<and>
   verifyDomain ex_world ''example.com'' UPSERT =
     (Inr \<lparr>vr_domainName = ''example.com'', vr_changeId = ''/change/C-Z1''\<rparr>,
      [ListHostedZonesByName ''example.com'', VerifyDomainIdentity ''example.com'',
       VerifyDomainDkim ''example.com'',
       ChangeResourceRecordSets ''Z1''
         (ses_changes ex_world UPSERT ''example.com'' ''token'' [''k1'', ''k2'', ''k3''])
         ses_comment])"
proof -
  have a: "CHR ''.'' \<notin> set ''Z1''" and b: "CHR ''.'' \<in> set ''example.com''"
    by simp_all
  have u: "UPSERT \<noteq> DELETE" by (simp add: UPSERT_def DELETE_def)
  from verifyDomain_id_or_name [of "''Z1''" ex_world UPSERT] a
  have 1: "verifyDomain ex_world ''Z1'' UPSERT =
        io_bind (io_call (GetHostedZone ''Z1'') (getHostedZone ex_world ''Z1''))
          (\<lambda>HostedZone. verifyRecords ex_world ''Z1'' (zone_Name HostedZone) UPSERT)"
    by blast
  from verifyDomain_id_or_name [of "''example.com''" ex_world UPSERT] b
  have 2: "verifyDomain ex_world ''example.com'' UPSERT =
        io_bind (getZoneIdByName ex_world ''example.com'')
          (\<lambda>hostedZoneId. verifyRecords ex_world hostedZoneId ''example.com'' UPSERT)"
    by blast
  have 3: "verifyDomain ex_world ''Z1'' UPSERT =
     (Inr \<lparr>vr_domainName = ''example.com.'', vr_changeId = ''/change/C-Z1''\<rparr>,
      [GetHostedZone ''Z1'', VerifyDomainIdentity ''example.com.'', VerifyDomainDkim ''example.com.'',
       ChangeResourceRecordSets ''Z1''
         (ses_changes ex_world UPSERT ''example.com.'' ''token'' [''k1'', ''k2'', ''k3''])
         ses_comment])"
    unfolding 1 using u
    by (simp add: verifyRecords_eq io_call_def io_return_def ex_getHostedZone_def
        ex_changeResourceRecordSets_def)
  have 4: "verifyDomain ex_world ''example.com'' UPSERT =
     (Inr \<lparr>vr_domainName = ''example.com'', vr_changeId = ''/change/C-Z1''\<rparr>,
      [ListHostedZonesByName ''example.com'', VerifyDomainIdentity ''example.com'',
       VerifyDomainDkim ''example.com'',
       ChangeResourceRecordSets ''Z1''
         (ses_changes ex_world UPSERT ''example.com'' ''token'' [''k1'', ''k2'', ''k3''])
         ses_comment])"
    unfolding 2 using u
    by (simp add: verifyRecords_eq io_call_def io_return_def ex_changeResourceRecordSets_def)
  from a b 3 4 show ?thesis by blast
qed

theorem verifyDomain_DELETE_requests_witness:
  "fst (verifyTarget ex_world ''Z1'') = Inr (''Z1'', ''example.com.'') \<and>
   snd (verifyDomain ex_world ''Z1'' DELETE) =
     [GetHostedZone ''Z1'', VerifyDomainIdentity ''example.com.'', VerifyDomainDkim ''example.com.'',
      DeleteIdentity ''example.com.'',
      ChangeResourceRecordSets ''Z1''
        (ses_changes ex_world DELETE ''example.com.'' ''token'' [''k1'', ''k2'', ''k3''])
        ses_comment] \<and>
   map ch_Name (ses_changes ex_world DELETE ''example.com.'' ''token'' [''k1'', ''k2'', ''k3'']) =
     [''_amazonses.example.com.'', ''k1._domainkey.example.com.'', ''k2._domainkey.example.com.'',
      ''k3._domainkey.example.com.'']"
proof -
  have t: "fst (verifyTarget ex_world ''Z1'') = Inr (''Z1'', ''example.com.'')"
    by simp
  from verifyDomain_DELETE_requests
    [of ex_world "''Z1''" "''Z1''" "''example.com.''" "''token''" "[''k1'', ''k2'', ''k3'']"] t
  show ?thesis by simp
qed

section \<open>Properties of the change batch publisher\<close>

lemma heads_of_singletons:
  "concat (map (case_list [] (\<lambda>h t. [h]) \<circ> (\<lambda>x. [c x])) xs) = map c xs"
  by (induction xs) simp_all

lemma tails_of_singletons:
  "concat (map (case_list [] (\<lambda>h t. [t]) \<circ> (\<lambda>x. [c x])) xs) = map (\<lambda>x. []) xs"
  by (induction xs) simp_all

lemma transpose_empties: "transpose (map (\<lambda>x. []) xs) = []"
  by (simp add: transpose_empty)

lemma concat_transpose_singletons: "concat (transpose (map (\<lambda>x. [c x]) xs)) = map c xs"
  by (cases xs) (simp_all add: heads_of_singletons tails_of_singletons transpose_empties)

lemma heads_tails_sets:
  "set [h. (h # t) \<leftarrow> xss] \<union> (\<Union>ys \<in> set [t. (h # t) \<leftarrow> xss]. set ys) = (\<Union>ys \<in> set xss. set ys)"
proof (induction xss)
  case Nil
  show ?case by simp
next
  case (Cons ys xss)
  let ?A = "set [h. (h # t) \<leftarrow> xss]"
  let ?B = "\<Union>ys \<in> set [t. (h # t) \<leftarrow> xss]. set ys"
  show ?case
  proof (cases ys)
    case Nil
    with Cons.IH show ?thesis by simp
  next
    case (Cons h t)
    have "insert h ?A \<union> (set t \<union> ?B) = insert h (set t) \<union> (?A \<union> ?B)" by blast
    with Cons.IH Cons show ?thesis by simp
  qed
qed

lemma set_concat_transpose: "set (concat (transpose xss)) = (\<Union>xs \<in> set xss. set xs)"
proof (induction xss rule: transpose.induct)
  case 1
  show ?case by simp
next
  case (2 xss)
  then show ?case by simp
next
  case (3 x xs xss)
  let ?A = "set [h. (h # t) \<leftarrow> xss]"
  let ?B = "\<Union>ys \<in> set [t. (h # t) \<leftarrow> xss]. set ys"
  have "set (concat (transpose ((x # xs) # xss))) =
      insert x ?A \<union> set (concat (transpose (xs # [t. (h # t) \<leftarrow> xss])))"
    by simp
  also have "\<dots> = insert x ?A \<union> (set xs \<union> ?B)"
    using 3 by simp
  also have "\<dots> = insert x (set xs) \<union> (?A \<union> ?B)"
    by blast
  also have "\<dots> = insert x (set xs) \<union> (\<Union>ys \<in> set xss. set ys)"
    by (simp only: heads_tails_sets)
  finally show ?case by simp
qed

lemma list_all_concat_transpose:
  "list_all P (concat (transpose xss)) = (\<forall>xs \<in> set xss. list_all P xs)"
  unfolding list_all_iff set_concat_transpose by blast

lemma first_rejection_None_iff:
  "first_rejection ps = None \<longleftrightarrow> (\<forall>p \<in> set ps. \<exists>x. fst p = Inr x)"
  by (induction ps rule: first_rejection.induct) (auto split: option.splits)

lemma io_all_fails:
  assumes "p \<in> set ps" and "fst p = Inl e"
  shows "\<exists>e'. fst (io_all ps) = Inl e'"
proof -
  have "first_rejection ps \<noteq> None"
  proof
    assume "first_rejection ps = None"
    with assms(1) obtain x where "fst p = Inr x"
      by (auto simp add: first_rejection_None_iff)
    with assms(2) show False by simp
  qed
  then show ?thesis by (auto simp add: io_all_def)
qed

lemma io_all_log: "snd (io_all ps) = concat (transpose (map snd ps))"
  by (simp add: io_all_def)

lemma io_all_values:
  "io_all (map (\<lambda>x. (Inr (g x), h x)) xs) = (Inr (map g xs), concat (transpose (map h xs)))"
proof -
  have "first_rejection (map (\<lambda>x. (Inr (g x), h x)) xs) = None"
    by (simp add: first_rejection_None_iff)
  moreover have "all_values (map (\<lambda>x. (Inr (g x), h x)) xs) = map g xs"
    by (induction xs) simp_all
  ultimately show ?thesis by (simp add: io_all_def comp_def)
qed

lemma delete_promise:
  "io_catch_null (submitBatch w arn kv) =
     (Inr (case batch_answer w arn kv of Inl m \<Rightarrow> None | Inr i \<Rightarrow> Some i), [batch_call arn kv])"
  by (simp add: io_catch_null_def submitBatch_def io_call_def split: sum.splits)

lemma upsert_promise:
  "io_bind (submitBatch w arn kv) (\<lambda>Id. io_return (Some Id)) =
     (case batch_answer w arn kv of Inl m \<Rightarrow> Inl (ProviderError m) | Inr i \<Rightarrow> Inr (Some i),
      [batch_call arn kv])"
  by (simp add: submitBatch_def io_call_def io_return_def split: sum.splits)

lemma submitChanges_DELETE:
  "submitChanges w arn DELETE Changes =
     (Inr (map (\<lambda>kv. case batch_answer w arn kv of Inl m \<Rightarrow> None | Inr i \<Rightarrow> Some i)
             (object_entries Changes)),
      map (batch_call arn) (object_entries Changes))"
  using io_all_values
    [of "\<lambda>kv. case batch_answer w arn kv of Inl m \<Rightarrow> None | Inr i \<Rightarrow> Some i"
      "\<lambda>kv. [batch_call arn kv]" "object_entries Changes"]
  by (simp add: submitChanges_def comp_def delete_promise concat_transpose_singletons)

lemma submitChanges_other_log:
  assumes "action \<noteq> DELETE"
  shows "snd (submitChanges w arn action Changes) = map (batch_call arn) (object_entries Changes)"
  using assms
  by (simp add: submitChanges_def io_all_log comp_def upsert_promise concat_transpose_singletons)

lemma submitChanges_other_fails:
  assumes "action \<noteq> DELETE"
      and "kv \<in> set (object_entries Changes)"
      and "batch_answer w arn kv = Inl m"
  shows "\<exists>e. fst (submitChanges w arn action Changes) = Inl e"
proof -
  let ?ps = "map (\<lambda>p. io_bind p (\<lambda>Id. io_return (Some Id)))
               (map (submitBatch w arn) (object_entries Changes))"
  from assms(2) have "io_bind (submitBatch w arn kv) (\<lambda>Id. io_return (Some Id)) \<in> set ?ps"
    by simp
  moreover from assms(3)
  have "fst (io_bind (submitBatch w arn kv) (\<lambda>Id. io_return (Some Id))) = Inl (ProviderError m)"
    by (simp add: upsert_promise)
  ultimately have "\<exists>e. fst (io_all ?ps) = Inl e" by (rule io_all_fails)
  with assms(1) show ?thesis by (simp add: submitChanges_def)
qed

lemma publish_stages:
  assumes "describeCertificate w arn = Inr cert"
      and "cert_Type cert = AMAZON_ISSUED_CERT_TYPE"
      and "fst (io_all (zoneIdLookups w (pendingOptions cert))) = Inr zoneIds"
      and "groupChanges action zoneIds (map vo_ResourceRecord (pendingOptions cert)) [] = Inr Changes"
  shows "publishCertValidationDNS w arn action =
     (fst (submitChanges w arn action Changes),
      DescribeCertificate arn # snd (io_all (zoneIdLookups w (pendingOptions cert)))
        @ snd (submitChanges w arn action Changes))"
proof -
  obtain l where "io_all (zoneIdLookups w (pendingOptions cert)) = (Inr zoneIds, l)"
    using assms(3) by (cases "io_all (zoneIdLookups w (pendingOptions cert))") auto
  with assms(1,2,4) show ?thesis
    by (simp add: publishCertValidationDNS_def io_call_def)
qed

text \<open>
  \<^bold>\<open>C4.\<close> When \<^verbatim>\<open>publishCertValidationDNS\<close> has come to its change batches (the
  certificate is described and Amazon-issued, the zone lookups have succeeded,
  the changes are grouped by zone into \<open>Changes\<close>), one batch per group is
  submitted, in the order of \<^verbatim>\<open>Object.keys(Changes)\<close>, whatever the action and
  whatever the other batches answer. For \<^verbatim>\<open>UPSERT\<close>, if the submission of any
  group fails, the call fails: the result is an error and no list. For \<^verbatim>\<open>DELETE\<close>
  the call does not fail: the result is the list with, at the position of each
  group, the change id of its batch, or \<^verbatim>\<open>null\<close> if its submission failed.
\<close>

theorem publishCertValidationDNS_failure_policy:
  assumes "describeCertificate w arn = Inr cert"
      and "cert_Type cert = AMAZON_ISSUED_CERT_TYPE"
      and "fst (io_all (zoneIdLookups w (pendingOptions cert))) = Inr zoneIds"
      and "groupChanges UPSERT zoneIds (map vo_ResourceRecord (pendingOptions cert)) [] = Inr Ups"
      and "groupChanges DELETE zoneIds (map vo_ResourceRecord (pendingOptions cert)) [] = Inr Dels"
  shows "((\<exists>kv m. kv \<in> set (object_entries Ups) \<and> batch_answer w arn kv = Inl m) \<longrightarrow>
            (\<exists>e. fst (publishCertValidationDNS w arn UPSERT) = Inl e)) \<and>
         snd (publishCertValidationDNS w arn UPSERT) =
           DescribeCertificate arn # snd (io_all (zoneIdLookups w (pendingOptions cert)))
             @ map (batch_call arn) (object_entries Ups) \<and>
         fst (publishCertValidationDNS w arn DELETE) =
           Inr (map (\<lambda>kv. case batch_answer w arn kv of Inl m \<Rightarrow> None | Inr i \<Rightarrow> Some i)
                  (object_entries Dels)) \<and>
         snd (publishCertValidationDNS w arn DELETE) =
           DescribeCertificate arn # snd (io_all (zoneIdLookups w (pendingOptions cert)))
             @ map (batch_call arn) (object_entries Dels)"
proof -
  have ud: "UPSERT \<noteq> DELETE" by (simp add: UPSERT_def DELETE_def)
  have up: "publishCertValidationDNS w arn UPSERT =
     (fst (submitChanges w arn UPSERT Ups),
      DescribeCertificate arn # snd (io_all (zoneIdLookups w (pendingOptions cert)))
        @ snd (submitChanges w arn UPSERT Ups))"
    using assms(1,2,3,4) by (rule publish_stages)
  have del: "publishCertValidationDNS w arn DELETE =
     (fst (submitChanges w arn DELETE Dels),
      DescribeCertificate arn # snd (io_all (zoneIdLookups w (pendingOptions cert)))
        @ snd (submitChanges w arn DELETE Dels))"
    using assms(1,2,3,5) by (rule publish_stages)
  have fail: "\<exists>e. fst (submitChanges w arn UPSERT Ups) = Inl e"
    if "\<exists>kv m. kv \<in> set (object_entries Ups) \<and> batch_answer w arn kv = Inl m"
  proof -
    from that obtain kv m where kv: "kv \<in> set (object_entries Ups)"
      and m: "batch_answer w arn kv = Inl m" by blast
    from ud kv m show ?thesis by (rule submitChanges_other_fails)
  qed
  from fail show ?thesis
    by (simp add: up del submitChanges_DELETE submitChanges_other_log [OF ud])
qed

lemma ex_describe [simp]: "describeCertificate ex_world = ex_describeCertificate"
  by (simp add: ex_world_def)

lemma ex_fqdn [simp]:
  "getZoneIdByFQDN ex_world ''www.plain.net'' =
     (Inr ''Z5'', [ListHostedZonesByName ''plain.net'', TestDNSAnswer ''Z5'' ''www.plain.net'' ''NS''])"
  "getZoneIdByFQDN ex_world ''www.example.com'' =
     (Inr ''Z1'',
      [ListHostedZonesByName ''example.com'', TestDNSAnswer ''Z1'' ''www.example.com'' ''NS''])"
  by (simp_all add: getZoneIdByFQDN_def zoneWalk.simps(2) io_call_def io_return_def
      ex_testDNSAnswer_def)

lemma ex_cert_pending [simp]: "pendingOptions ex_cert = ex_pending"
  by (simp add: pendingOptions_def ex_cert_def ex_pending_def ex_validation_option_def
      PENDING_VALIDATION_def)

lemma ex_lookups [simp]:
  "io_all (zoneIdLookups ex_world ex_pending) =
     (Inr [''Z5'', ''Z1''],
      [ListHostedZonesByName ''plain.net'', ListHostedZonesByName ''example.com'',
       TestDNSAnswer ''Z5'' ''www.plain.net'' ''NS'', TestDNSAnswer ''Z1'' ''www.example.com'' ''NS''])"
  by (simp add: io_all_def zoneIdLookups_def ex_pending_def ex_validation_option_def)

lemma ex_grouping [simp]:
  "groupChanges action [''Z5'', ''Z1''] (map vo_ResourceRecord ex_pending) [] = Inr (ex_groups action)"
  by (simp add: ex_pending_def ex_validation_option_def object_prototype_names_def ex_groups_def
      ex_record_def)

lemma ex_entries [simp]: "object_entries (ex_groups action) = ex_groups action"
  by (simp add: object_entries_def ex_groups_def is_array_index_def is_digit_def)

theorem publishCertValidationDNS_failure_policy_witness:
  "describeCertificate ex_world ''arn:two'' = Inr ex_cert \<and>
   batch_answer ex_world ''arn:two'' (''Z5'', [validation_change UPSERT (ex_record ''www.plain.net'')]) =
     Inl ''InvalidChangeBatch'' \<and>
   (\<exists>e. fst (publishCertValidationDNS ex_world ''arn:two'' UPSERT) = Inl e) \<and>
   fst (publishCertValidationDNS ex_world ''arn:two'' DELETE) = Inr [None, Some ''/change/C-Z1''] \<and>
   snd (publishCertValidationDNS ex_world ''arn:two'' DELETE) =
     [DescribeCertificate ''arn:two'',
      ListHostedZonesByName ''plain.net'', ListHostedZonesByName ''example.com'',
      TestDNSAnswer ''Z5'' ''www.plain.net'' ''NS'', TestDNSAnswer ''Z1'' ''www.example.com'' ''NS'',
      batch_call ''arn:two'' (''Z5'', [validation_change DELETE (ex_record ''www.plain.net'')]),
      batch_call ''arn:two'' (''Z1'', [validation_change DELETE (ex_record ''www.example.com'')])]"
proof -
  have a: "describeCertificate ex_world ''arn:two'' = Inr ex_cert"
    by (simp add: ex_describeCertificate_def ex_cert_def)
  have b: "cert_Type ex_cert = AMAZON_ISSUED_CERT_TYPE"
    by (simp add: ex_cert_def AMAZON_ISSUED_CERT_TYPE_def)
  have c: "fst (io_all (zoneIdLookups ex_world (pendingOptions ex_cert))) = Inr [''Z5'', ''Z1'']"
    by simp
  have d: "groupChanges UPSERT [''Z5'', ''Z1''] (map vo_ResourceRecord (pendingOptions ex_cert)) [] =
      Inr (ex_groups UPSERT)"
    and e: "groupChanges DELETE [''Z5'', ''Z1''] (map vo_ResourceRecord (pendingOptions ex_cert)) [] =
      Inr (ex_groups DELETE)"
    by simp_all
  have f: "batch_answer ex_world ''arn:two''
      (''Z5'', [validation_change action (ex_record ''www.plain.net'')]) = Inl ''InvalidChangeBatch''"
    and g: "batch_answer ex_world ''arn:two''
      (''Z1'', [validation_change action (ex_record ''www.example.com'')]) = Inr ''/change/C-Z1''"
    for action
    by (simp_all add: batch_answer_def ex_changeResourceRecordSets_def)
  have h: "\<exists>kv m. kv \<in> set (object_entries (ex_groups UPSERT)) \<and>
      batch_answer ex_world ''arn:two'' kv = Inl m"
  proof (intro exI conjI)
    show "(''Z5'', [validation_change UPSERT (ex_record ''www.plain.net'')])
        \<in> set (object_entries (ex_groups UPSERT))"
      by (simp only: ex_entries) (simp add: ex_groups_def)
    show "batch_answer ex_world ''arn:two''
        (''Z5'', [validation_change UPSERT (ex_record ''www.plain.net'')]) = Inl ''InvalidChangeBatch''"
      by (rule f)
  qed
  from publishCertValidationDNS_failure_policy [OF a b c d e] h
  have "(\<exists>e. fst (publishCertValidationDNS ex_world ''arn:two'' UPSERT) = Inl e) \<and>
    fst (publishCertValidationDNS ex_world ''arn:two'' DELETE) =
      Inr (map (\<lambda>kv. case batch_answer ex_world ''arn:two'' kv of Inl m \<Rightarrow> None | Inr i \<Rightarrow> Some i)
             (ex_groups DELETE)) \<and>
    snd (publishCertValidationDNS ex_world ''arn:two'' DELETE) =
      DescribeCertificate ''arn:two'' # snd (io_all (zoneIdLookups ex_world ex_pending))
        @ map (batch_call ''arn:two'') (ex_groups DELETE)"
    by simp
  with f g a show ?thesis
    by (simp add: ex_groups_def)
qed

lemma zoneWalk_calls: "list_all is_zone_call (snd (zoneWalk w n dn rest))"
proof (induction rest arbitrary: dn)
  case Nil
  show ?case by simp
next
  case (Cons label rest)
  show ?case
  proof (cases "fst (getZoneIdByName w (label @ ''.'' @ dn))")
    case (Inl e)
    then show ?thesis by (simp add: zoneWalk_lookup_error)
  next
    case (Inr z)
    with Cons.IH [of "label @ ''.'' @ dn"] show ?thesis
      by (simp add: zoneWalk_resolved split: sum.splits)
  qed
qed

lemma getZoneIdByFQDN_calls: "list_all is_zone_call (snd (getZoneIdByFQDN w fqdn))"
  using getZoneIdByFQDN_walk [of w fqdn] zoneWalk_calls by auto

lemma zoneIdLookups_calls: "list_all is_zone_call (snd (io_all (zoneIdLookups w pending)))"
  by (simp add: io_all_log list_all_concat_transpose zoneIdLookups_def getZoneIdByFQDN_calls)

lemma set_object_entries: "set (object_entries m) = set m"
  by (auto simp add: object_entries_def)

lemma all_changes_addChange: "all_changes (addChange m zoneId c) = insert c (all_changes m)"
  by (induction m zoneId c rule: addChange.induct) (auto simp add: all_changes_def)

lemma groupChanges_changes:
  "groupChanges action zoneIds rrs m = Inr m' \<Longrightarrow>
     all_changes m' \<subseteq> all_changes m \<union> {validation_change action rr | rr. Some rr \<in> set rrs}"
proof (induction action zoneIds rrs m rule: groupChanges.induct)
  case (4 action zoneId zoneIds rr resourceRecords Changes)
  then show ?case
    by (auto simp add: all_changes_addChange split: if_splits)
qed simp_all

lemma pending_records:
  "Some rr \<in> set (map vo_ResourceRecord (pendingOptions cert)) \<Longrightarrow>
     \<exists>vo. vo \<in> set (cert_DomainValidationOptions cert) \<and>
       vo_ValidationStatus vo = PENDING_VALIDATION \<and> vo_ResourceRecord vo = Some rr"
  by (auto simp add: pendingOptions_def)

lemma submitChanges_log:
  "snd (submitChanges w arn action Changes) = map (batch_call arn) (object_entries Changes)"
  by (cases "action = DELETE") (simp_all add: submitChanges_DELETE submitChanges_other_log)

lemma publish_log_cases:
  assumes "describeCertificate w arn = Inr cert"
  shows "(\<exists>Changes. groupChanges action (projr (fst (io_all (zoneIdLookups w (pendingOptions cert)))))
              (map vo_ResourceRecord (pendingOptions cert)) [] = Inr Changes \<and>
            snd (publishCertValidationDNS w arn action) =
              DescribeCertificate arn # snd (io_all (zoneIdLookups w (pendingOptions cert)))
                @ map (batch_call arn) (object_entries Changes)) \<or>
         snd (publishCertValidationDNS w arn action) =
           DescribeCertificate arn # snd (io_all (zoneIdLookups w (pendingOptions cert))) \<or>
         snd (publishCertValidationDNS w arn action) = [DescribeCertificate arn]"
proof (cases "cert_Type cert = AMAZON_ISSUED_CERT_TYPE")
  case False
  with assms show ?thesis
    by (simp add: publishCertValidationDNS_def io_call_def io_throw_def)
next
  case True
  obtain r l where rl: "io_all (zoneIdLookups w (pendingOptions cert)) = (r, l)"
    by (cases "io_all (zoneIdLookups w (pendingOptions cert))") auto
  show ?thesis
  proof (cases r)
    case (Inl e)
    with assms True rl show ?thesis
      by (simp add: publishCertValidationDNS_def io_call_def)
  next
    case (Inr zoneIds)
    show ?thesis
    proof (cases "groupChanges action zoneIds (map vo_ResourceRecord (pendingOptions cert)) []")
      case (Inl e)
      with assms True rl Inr show ?thesis
        by (simp add: publishCertValidationDNS_def io_call_def io_throw_def)
    next
      case g: (Inr Changes)
      with assms True rl Inr show ?thesis
        by (simp add: publishCertValidationDNS_def io_call_def submitChanges_log)
    qed
  qed
qed

text \<open>
  \<^bold>\<open>C10.\<close> For a certificate that \<^verbatim>\<open>describeCertificate\<close> returns: every change of
  every batch that \<^verbatim>\<open>publishCertValidationDNS\<close> submits is the record of a
  validation option whose status is \<^verbatim>\<open>PENDING_VALIDATION\<close>; and if the certificate
  is Amazon-issued and none of its validation options is pending, the function
  sends no request after \<^verbatim>\<open>describeCertificate\<close>, so no change batch, and returns
  the empty list.
\<close>

theorem publishCertValidationDNS_pending_only:
  assumes "describeCertificate w arn = Inr cert"
  shows "(ChangeResourceRecordSets z cs c \<in> set (snd (publishCertValidationDNS w arn action)) \<and>
          ch \<in> set cs \<longrightarrow>
            (\<exists>vo rr. vo \<in> set (cert_DomainValidationOptions cert) \<and>
               vo_ValidationStatus vo = PENDING_VALIDATION \<and>
               vo_ResourceRecord vo = Some rr \<and> ch = validation_change action rr)) \<and>
         (cert_Type cert = AMAZON_ISSUED_CERT_TYPE \<and> pendingOptions cert = [] \<longrightarrow>
            publishCertValidationDNS w arn action = (Inr [], [DescribeCertificate arn]))"
proof -
  let ?lookups = "io_all (zoneIdLookups w (pendingOptions cert))"
  have zc: "ChangeResourceRecordSets z cs c \<notin> set (snd ?lookups)"
    using zoneIdLookups_calls [of w "pendingOptions cert"] by (auto simp add: list_all_iff)
  have 1: "\<exists>vo rr. vo \<in> set (cert_DomainValidationOptions cert) \<and>
               vo_ValidationStatus vo = PENDING_VALIDATION \<and>
               vo_ResourceRecord vo = Some rr \<and> ch = validation_change action rr"
    if sub: "ChangeResourceRecordSets z cs c \<in> set (snd (publishCertValidationDNS w arn action))"
      and ch: "ch \<in> set cs"
  proof -
    from publish_log_cases [OF assms, of action] sub zc
    obtain Changes where g: "groupChanges action (projr (fst ?lookups))
              (map vo_ResourceRecord (pendingOptions cert)) [] = Inr Changes"
      and "ChangeResourceRecordSets z cs c \<in> set (map (batch_call arn) (object_entries Changes))"
      by auto
    then have "(z, cs) \<in> set Changes"
      by (auto simp add: batch_call_def set_object_entries)
    with ch have "ch \<in> all_changes Changes" by (force simp add: all_changes_def)
    moreover from groupChanges_changes [OF g]
    have "all_changes Changes \<subseteq>
        {validation_change action rr | rr. Some rr \<in> set (map vo_ResourceRecord (pendingOptions cert))}"
      by (simp add: all_changes_def)
    ultimately obtain rr where "Some rr \<in> set (map vo_ResourceRecord (pendingOptions cert))"
      and "ch = validation_change action rr"
      by blast
    with pending_records [of rr cert] show ?thesis by blast
  qed
  have 2: "publishCertValidationDNS w arn action = (Inr [], [DescribeCertificate arn])"
    if "cert_Type cert = AMAZON_ISSUED_CERT_TYPE" and "pendingOptions cert = []"
    using that assms
    by (simp add: publishCertValidationDNS_def io_call_def zoneIdLookups_def io_all_def
        submitChanges_def object_entries_def)
  from 1 2 show ?thesis by blast
qed

theorem publishCertValidationDNS_pending_only_witness:
  "(\<exists>vo rr. vo \<in> set (cert_DomainValidationOptions ex_cert) \<and>
      vo_ValidationStatus vo = PENDING_VALIDATION \<and> vo_ResourceRecord vo = Some rr \<and>
      validation_change DELETE (ex_record ''www.example.com'') = validation_change DELETE rr) \<and>
   describeCertificate ex_world ''arn:issued'' =
     Inr \<lparr>cert_Type = ''AMAZON_ISSUED'',
          cert_DomainValidationOptions = [ex_validation_option ''old.example.com'' ''SUCCESS'']\<rparr> \<and>
   publishCertValidationDNS ex_world ''arn:issued'' DELETE =
     (Inr [], [DescribeCertificate ''arn:issued'']) \<and>
   publishCertValidationDNS ex_world ''arn:issued'' UPSERT =
     (Inr [], [DescribeCertificate ''arn:issued''])"
proof -
  let ?cert = "\<lparr>cert_Type = ''AMAZON_ISSUED'',
          cert_DomainValidationOptions = [ex_validation_option ''old.example.com'' ''SUCCESS'']\<rparr>"
  have a: "describeCertificate ex_world ''arn:issued'' = Inr ?cert"
    by (simp add: ex_describeCertificate_def)
  have b: "cert_Type ?cert = AMAZON_ISSUED_CERT_TYPE \<and> pendingOptions ?cert = []"
    by (simp add: AMAZON_ISSUED_CERT_TYPE_def pendingOptions_def ex_validation_option_def
        PENDING_VALIDATION_def)
  from publishCertValidationDNS_pending_only [OF a, of _ _ _ DELETE] b
  have 1: "publishCertValidationDNS ex_world ''arn:issued'' DELETE =
     (Inr [], [DescribeCertificate ''arn:issued''])"
    by blast
  from publishCertValidationDNS_pending_only [OF a, of _ _ _ UPSERT] b
  have 2: "publishCertValidationDNS ex_world ''arn:issued'' UPSERT =
     (Inr [], [DescribeCertificate ''arn:issued''])"
    by blast
  have c: "describeCertificate ex_world ''arn:two'' = Inr ex_cert"
    by (simp add: ex_describeCertificate_def ex_cert_def)
  have "publishCertValidationDNS ex_world ''arn:two'' DELETE =
     (fst (submitChanges ex_world ''arn:two'' DELETE (ex_groups DELETE)),
      DescribeCertificate ''arn:two'' # snd (io_all (zoneIdLookups ex_world (pendingOptions ex_cert)))
        @ snd (submitChanges ex_world ''arn:two'' DELETE (ex_groups DELETE)))"
    by (rule publish_stages [OF c, of "[''Z5'', ''Z1'']"])
      (simp add: ex_cert_def AMAZON_ISSUED_CERT_TYPE_def, simp_all)
  then have d: "ChangeResourceRecordSets ''Z1'' [validation_change DELETE (ex_record ''www.example.com'')]
      (validation_comment ''arn:two'') \<in> set (snd (publishCertValidationDNS ex_world ''arn:two'' DELETE))"
    by (simp add: submitChanges_log batch_call_def) (simp add: ex_groups_def)
  from publishCertValidationDNS_pending_only
    [OF c, of "''Z1''" "[validation_change DELETE (ex_record ''www.example.com'')]"
      "validation_comment ''arn:two''" DELETE "validation_change DELETE (ex_record ''www.example.com'')"] d
  have 3: "\<exists>vo rr. vo \<in> set (cert_DomainValidationOptions ex_cert) \<and>
      vo_ValidationStatus vo = PENDING_VALIDATION \<and> vo_ResourceRecord vo = Some rr \<and>
      validation_change DELETE (ex_record ''www.example.com'') = validation_change DELETE rr"
    by simp
  from a 1 2 3 show ?thesis by blast
qed

section \<open>Properties of the certificate lookup\<close>

lemma fio_bind_simps [simp]:
  "fio_bind None f = None"
  "fio_bind (Some (Inl e, l)) f = Some (Inl e, l)"
  "fio_bind (Some (Inr x, l)) f = map_option (\<lambda>rl. (fst rl, l @ snd rl)) (f x)"
  by (simp_all add: fio_bind_def split: option.splits prod.splits)








lemma ex_list [simp]: "listCertificates ex_world = ex_listCertificates"
  by (simp add: ex_world_def)

lemma ex_round:
  "lookupCertificateInternal (Suc (Suc fuel)) ex_world d i =
     Some (Inr (if d = ''imported.example.com'' then Some ''arn:imported''
                else if d = ''www.example.com'' \<and> 2 \<le> i then Some ''arn:two'' else None),
           [ListCertificates i [PENDING_VALIDATION] None])"
  by (simp add: lookupCertificateInternal_def truthy_def io_call_def io_return_def
      ex_listCertificates_def)



section \<open>Properties of the handlers\<close>

lemma io_bind_log: "\<exists>l'. snd (io_bind m f) = snd m @ l'"
  by (cases m rule: prod.exhaust) (auto simp add: io_bind_def split: sum.splits prod.splits)

lemma verifyDomain_log_nonempty: "snd (verifyDomain w s action) \<noteq> []"
proof -
  have "snd (verifyTarget w s) \<noteq> []"
  proof (cases "CHR ''.'' \<in> set s")
    case True
    with io_bind_log [of "getZoneIdByName w s" "\<lambda>hostedZoneId. io_return (hostedZoneId, s)"]
    show ?thesis by (auto simp add: verifyTarget_name snd_getZoneIdByName)
  next
    case False
    with io_bind_log [of "io_call (GetHostedZone s) (getHostedZone w s)"
        "\<lambda>HostedZone. io_return (s, zone_Name HostedZone)"]
    show ?thesis by (auto simp add: verifyTarget_id io_call_def)
  qed
  with io_bind_log [of "verifyTarget w s"
      "\<lambda>(hostedZoneId, domainName). verifyRecords w hostedZoneId domainName action"]
  show ?thesis by (auto simp add: verifyDomain_def)
qed

text \<open>
  \<^bold>\<open>C3\<close>, as the code has it, for any value of \<^verbatim>\<open>DEFAULT_PHYSICAL_RESOURCE_ID\<close>. A
  \<^verbatim>\<open>Delete\<close> event that carries that id is handled like any other \<^verbatim>\<open>Delete\<close> event
  up to the \<^verbatim>\<open>catch\<close>: the deletion is attempted and its requests are sent (the
  SES handler sends at least one whenever the event names a zone). The handler
  then never reports failure: if the attempt raised, it reports success with that
  id and a \<^verbatim>\<open>null\<close> data payload; if the attempt succeeded, it reports success with
  that id and the change id (SES) or change ids (ACM) as data payload. The ACM
  handler answers whenever its certificate lookup returns.
\<close>

theorem sentinel_delete_reports_success:
  "(ses_RequestType ev = Delete \<and> ses_PhysicalResourceId ev = Some (DEFAULT_PHYSICAL_RESOURCE_ID cfnCR) \<longrightarrow>
      ses_handler cfnCR w ev =
        (case verifyDomainOf w (zoneIdOrName (ses_ResourceProperties ev)) DELETE of
           (Inr r, l) \<Rightarrow>
             (Success (Some (DEFAULT_PHYSICAL_RESOURCE_ID cfnCR)) (Some (ChangeId (vr_changeId r))), l)
         | (Inl err, l) \<Rightarrow> (Success (Some (DEFAULT_PHYSICAL_RESOURCE_ID cfnCR)) None, l)) \<and>
      (zoneIdOrName (ses_ResourceProperties ev) \<noteq> None \<longrightarrow> snd (ses_handler cfnCR w ev) \<noteq> [])) \<and>
   (acm_RequestType aev = Delete \<and> acm_PhysicalResourceId aev = Some (DEFAULT_PHYSICAL_RESOURCE_ID cfnCR) \<longrightarrow>
      processCREvent cfnCR fuel w aev remaining =
        (case lookupCertificate fuel w (CertificateFQDN (acm_ResourceProperties aev))
                (Some (remaining - TIMEOUT_MARGIN_OF_SAFETY_MS)) of
           None \<Rightarrow> None
         | Some (Inl err, l) \<Rightarrow> Some (Success (Some (DEFAULT_PHYSICAL_RESOURCE_ID cfnCR)) None, l)
         | Some (Inr certificateArn, l) \<Rightarrow>
             (case publishCertValidationDNS w certificateArn DELETE of
                (Inr changeIds, l') \<Rightarrow>
                  Some (Success (Some (DEFAULT_PHYSICAL_RESOURCE_ID cfnCR)) (Some (ChangeIds changeIds)),
                        l @ l')
              | (Inl err, l') \<Rightarrow> Some (Success (Some (DEFAULT_PHYSICAL_RESOURCE_ID cfnCR)) None, l @ l'))))"
proof -
  have 1: "ses_handler cfnCR w ev =
        (case verifyDomainOf w (zoneIdOrName (ses_ResourceProperties ev)) DELETE of
           (Inr r, l) \<Rightarrow>
             (Success (Some (DEFAULT_PHYSICAL_RESOURCE_ID cfnCR)) (Some (ChangeId (vr_changeId r))), l)
         | (Inl err, l) \<Rightarrow> (Success (Some (DEFAULT_PHYSICAL_RESOURCE_ID cfnCR)) None, l))"
    if "ses_RequestType ev = Delete"
      and "ses_PhysicalResourceId ev = Some (DEFAULT_PHYSICAL_RESOURCE_ID cfnCR)"
    using that by (simp add: ses_handler_def split: prod.splits sum.splits)
  have 2: "snd (ses_handler cfnCR w ev) \<noteq> []"
    if d: "ses_RequestType ev = Delete"
      and p: "ses_PhysicalResourceId ev = Some (DEFAULT_PHYSICAL_RESOURCE_ID cfnCR)"
      and z: "zoneIdOrName (ses_ResourceProperties ev) \<noteq> None"
  proof -
    from z obtain s where s: "zoneIdOrName (ses_ResourceProperties ev) = Some s" by auto
    have "snd (ses_handler cfnCR w ev) = snd (verifyDomain w s DELETE)"
      unfolding 1 [OF d p] s
      by (cases "verifyDomain w s DELETE" rule: prod.exhaust)
        (auto simp add: verifyDomainOf_def split: sum.splits)
    then show ?thesis by (simp add: verifyDomain_log_nonempty)
  qed
  have 3: "processCREvent cfnCR fuel w aev remaining =
        (case lookupCertificate fuel w (CertificateFQDN (acm_ResourceProperties aev))
                (Some (remaining - TIMEOUT_MARGIN_OF_SAFETY_MS)) of
           None \<Rightarrow> None
         | Some (Inl err, l) \<Rightarrow> Some (Success (Some (DEFAULT_PHYSICAL_RESOURCE_ID cfnCR)) None, l)
         | Some (Inr certificateArn, l) \<Rightarrow>
             (case publishCertValidationDNS w certificateArn DELETE of
                (Inr changeIds, l') \<Rightarrow>
                  Some (Success (Some (DEFAULT_PHYSICAL_RESOURCE_ID cfnCR)) (Some (ChangeIds changeIds)),
                        l @ l')
              | (Inl err, l') \<Rightarrow> Some (Success (Some (DEFAULT_PHYSICAL_RESOURCE_ID cfnCR)) None, l @ l')))"
    if "acm_RequestType aev = Delete"
      and "acm_PhysicalResourceId aev = Some (DEFAULT_PHYSICAL_RESOURCE_ID cfnCR)"
    using that
    by (auto simp add: processCREvent_def userHandlerLogic_def Let_def io_return_def
        split: option.splits sum.splits prod.splits)
  from 1 2 3 show ?thesis by blast
qed

lemma ex_verify_Z1:
  "verifyDomain ex_world ''Z1'' DELETE =
     (Inr \<lparr>vr_domainName = ''example.com.'', vr_changeId = ''/change/C-Z1''\<rparr>,
      [GetHostedZone ''Z1'', VerifyDomainIdentity ''example.com.'', VerifyDomainDkim ''example.com.'',
       DeleteIdentity ''example.com.'',
       ChangeResourceRecordSets ''Z1''
         (ses_changes ex_world DELETE ''example.com.'' ''token'' [''k1'', ''k2'', ''k3''])
         ses_comment])"
  by (simp add: verifyDomain_def verifyRecords_eq io_call_def io_return_def
      ex_changeResourceRecordSets_def)

lemma ex_verify_Z0:
  "verifyDomain ex_world ''Z0'' DELETE =
     (Inl (ProviderError ''NoSuchHostedZone''), [GetHostedZone ''Z0''])"
  by (simp add: verifyDomain_def)

lemma ex_lookup_imported:
  "lookupCertificate 3 ex_world ''imported.example.com'' (Some 7000) =
     Some (Inr ''arn:imported'', [ListCertificates 1 [PENDING_VALIDATION] None])"
  by (simp add: lookupCertificate_def eval_nat_numeral ex_round budget_spent_def truthy_def
      io_return_def WAIT_BETWEEN_REQS_MS_def)

lemma ex_publish_imported:
  "publishCertValidationDNS ex_world ''arn:imported'' DELETE =
     (Inl InvalidCertificate, [DescribeCertificate ''arn:imported''])"
  by (simp add: publishCertValidationDNS_def io_call_def io_throw_def ex_describeCertificate_def
      AMAZON_ISSUED_CERT_TYPE_def)

theorem sentinel_delete_reports_success_witness:
  "\<forall>cfnCR.
     ses_RequestType (ex_ses_delete cfnCR ''Z0'') = Delete \<and>
     ses_PhysicalResourceId (ex_ses_delete cfnCR ''Z0'') = Some (DEFAULT_PHYSICAL_RESOURCE_ID cfnCR) \<and>
     ses_handler cfnCR ex_world (ex_ses_delete cfnCR ''Z0'') =
       (Success (Some (DEFAULT_PHYSICAL_RESOURCE_ID cfnCR)) None, [GetHostedZone ''Z0'']) \<and>
     ses_handler cfnCR ex_world (ex_ses_delete cfnCR ''Z1'') =
       (Success (Some (DEFAULT_PHYSICAL_RESOURCE_ID cfnCR)) (Some (ChangeId ''/change/C-Z1'')),
        [GetHostedZone ''Z1'', VerifyDomainIdentity ''example.com.'',
         VerifyDomainDkim ''example.com.'', DeleteIdentity ''example.com.'',
         ChangeResourceRecordSets ''Z1''
           (ses_changes ex_world DELETE ''example.com.'' ''token'' [''k1'', ''k2'', ''k3''])
           ses_comment]) \<and>
     processCREvent cfnCR 3 ex_world (ex_acm_delete cfnCR ''imported.example.com'') 10000 =
       Some (Success (Some (DEFAULT_PHYSICAL_RESOURCE_ID cfnCR)) None,
             [ListCertificates 1 [PENDING_VALIDATION] None, DescribeCertificate ''arn:imported''])"
proof
  fix cfnCR :: cfn_custom_resource
  have a: "ses_RequestType (ex_ses_delete cfnCR z) = Delete \<and>
      ses_PhysicalResourceId (ex_ses_delete cfnCR z) = Some (DEFAULT_PHYSICAL_RESOURCE_ID cfnCR)" for z
    by (simp add: ex_ses_delete_def)
  have b: "zoneIdOrName (ses_ResourceProperties (ex_ses_delete cfnCR ''Z0'')) = Some ''Z0''"
    "zoneIdOrName (ses_ResourceProperties (ex_ses_delete cfnCR ''Z1'')) = Some ''Z1''"
    by (simp_all add: ex_ses_delete_def zoneIdOrName_def)
  have c: "acm_RequestType (ex_acm_delete cfnCR ''imported.example.com'') = Delete \<and>
      acm_PhysicalResourceId (ex_acm_delete cfnCR ''imported.example.com'') =
        Some (DEFAULT_PHYSICAL_RESOURCE_ID cfnCR)"
    and d: "CertificateFQDN (acm_ResourceProperties (ex_acm_delete cfnCR ''imported.example.com'')) =
      ''imported.example.com''"
    by (simp_all add: ex_acm_delete_def)
  from sentinel_delete_reports_success
    [where ev = "ex_ses_delete cfnCR ''Z0''" and w = ex_world and cfnCR = cfnCR] a [of "''Z0''"]
  have 1: "ses_handler cfnCR ex_world (ex_ses_delete cfnCR ''Z0'') =
     (Success (Some (DEFAULT_PHYSICAL_RESOURCE_ID cfnCR)) None, [GetHostedZone ''Z0''])"
    by (simp add: b verifyDomainOf_def ex_verify_Z0)
  from sentinel_delete_reports_success
    [where ev = "ex_ses_delete cfnCR ''Z1''" and w = ex_world and cfnCR = cfnCR] a [of "''Z1''"]
  have 2: "ses_handler cfnCR ex_world (ex_ses_delete cfnCR ''Z1'') =
     (Success (Some (DEFAULT_PHYSICAL_RESOURCE_ID cfnCR)) (Some (ChangeId ''/change/C-Z1'')),
      [GetHostedZone ''Z1'', VerifyDomainIdentity ''example.com.'', VerifyDomainDkim ''example.com.'',
       DeleteIdentity ''example.com.'',
       ChangeResourceRecordSets ''Z1''
         (ses_changes ex_world DELETE ''example.com.'' ''token'' [''k1'', ''k2'', ''k3''])
         ses_comment])"
    by (simp add: b verifyDomainOf_def ex_verify_Z1)
  from sentinel_delete_reports_success
    [where aev = "ex_acm_delete cfnCR ''imported.example.com''" and fuel = 3 and w = ex_world
      and remaining = 10000 and cfnCR = cfnCR] c
  have 3: "processCREvent cfnCR 3 ex_world (ex_acm_delete cfnCR ''imported.example.com'') 10000 =
     Some (Success (Some (DEFAULT_PHYSICAL_RESOURCE_ID cfnCR)) None,
           [ListCertificates 1 [PENDING_VALIDATION] None, DescribeCertificate ''arn:imported''])"
    by (simp add: d TIMEOUT_MARGIN_OF_SAFETY_MS_def ex_lookup_imported ex_publish_imported)
  from a [of "''Z0''"] 1 2 3
  show "ses_RequestType (ex_ses_delete cfnCR ''Z0'') = Delete \<and>
     ses_PhysicalResourceId (ex_ses_delete cfnCR ''Z0'') = Some (DEFAULT_PHYSICAL_RESOURCE_ID cfnCR) \<and>
     ses_handler cfnCR ex_world (ex_ses_delete cfnCR ''Z0'') =
       (Success (Some (DEFAULT_PHYSICAL_RESOURCE_ID cfnCR)) None, [GetHostedZone ''Z0'']) \<and>
     ses_handler cfnCR ex_world (ex_ses_delete cfnCR ''Z1'') =
       (Success (Some (DEFAULT_PHYSICAL_RESOURCE_ID cfnCR)) (Some (ChangeId ''/change/C-Z1'')),
        [GetHostedZone ''Z1'', VerifyDomainIdentity ''example.com.'',
         VerifyDomainDkim ''example.com.'', DeleteIdentity ''example.com.'',
         ChangeResourceRecordSets ''Z1''
           (ses_changes ex_world DELETE ''example.com.'' ''token'' [''k1'', ''k2'', ''k3''])
           ses_comment]) \<and>
     processCREvent cfnCR 3 ex_world (ex_acm_delete cfnCR ''imported.example.com'') 10000 =
       Some (Success (Some (DEFAULT_PHYSICAL_RESOURCE_ID cfnCR)) None,
             [ListCertificates 1 [PENDING_VALIDATION] None, DescribeCertificate ''arn:imported''])"
    by blast
qed

text \<open>The claim as the spec has it fails, whatever the value of
  \<^verbatim>\<open>DEFAULT_PHYSICAL_RESOURCE_ID\<close> is. On a \<^verbatim>\<open>Delete\<close> event that carries that id and
  names zone \<^verbatim>\<open>Z1\<close>, the SES handler sends the five requests of the deletion, which
  succeeds, and reports the change id, not \<^verbatim>\<open>null\<close>. On a \<^verbatim>\<open>Delete\<close> event that
  carries that id for a certificate that is not Amazon-issued (the case of the
  repository's test), the ACM handler reports \<^verbatim>\<open>null\<close>, after two requests.\<close>

theorem sentinel_delete_counterexample:
  "\<forall>cfnCR.
     ses_RequestType (ex_ses_delete cfnCR ''Z1'') = Delete \<and>
     ses_PhysicalResourceId (ex_ses_delete cfnCR ''Z1'') = Some (DEFAULT_PHYSICAL_RESOURCE_ID cfnCR) \<and>
     ses_handler cfnCR ex_world (ex_ses_delete cfnCR ''Z1'') =
       (Success (Some (DEFAULT_PHYSICAL_RESOURCE_ID cfnCR)) (Some (ChangeId ''/change/C-Z1'')),
        [GetHostedZone ''Z1'', VerifyDomainIdentity ''example.com.'',
         VerifyDomainDkim ''example.com.'', DeleteIdentity ''example.com.'',
         ChangeResourceRecordSets ''Z1''
           (ses_changes ex_world DELETE ''example.com.'' ''token'' [''k1'', ''k2'', ''k3''])
           ses_comment]) \<and>
     acm_RequestType (ex_acm_delete cfnCR ''imported.example.com'') = Delete \<and>
     acm_PhysicalResourceId (ex_acm_delete cfnCR ''imported.example.com'') =
       Some (DEFAULT_PHYSICAL_RESOURCE_ID cfnCR) \<and>
     processCREvent cfnCR 3 ex_world (ex_acm_delete cfnCR ''imported.example.com'') 10000 =
       Some (Success (Some (DEFAULT_PHYSICAL_RESOURCE_ID cfnCR)) None,
             [ListCertificates 1 [PENDING_VALIDATION] None, DescribeCertificate ''arn:imported''])"
  by (simp add: ses_handler_def ex_ses_delete_def zoneIdOrName_def verifyDomainOf_def ex_verify_Z1
      processCREvent_def userHandlerLogic_def ex_acm_delete_def TIMEOUT_MARGIN_OF_SAFETY_MS_def
      ex_lookup_imported ex_publish_imported)

section \<open>Further properties of the zone resolution\<close>

lemma zoneWalk_first_authoritative:
  assumes "candidates dn rest = pre @ c # post"
      and "list_all (delegated w n) pre"
      and "fst (getZoneIdByName w c) = Inr z"
      and "testDNSAnswer w z n ''NS'' = Inr []"
  shows "fst (zoneWalk w n dn rest) = Inr z \<and>
         last (snd (zoneWalk w n dn rest)) = TestDNSAnswer z n ''NS''"
  using assms
proof (induction pre arbitrary: dn rest)
  case Nil
  then obtain label rest' where r: "rest = label # rest'" and c: "c = label @ ''.'' @ dn"
    by (cases rest) auto
  with Nil.prems(3,4) show ?case
    by (simp add: zoneWalk_resolved)
next
  case (Cons p pre)
  then obtain label rest' where r: "rest = label # rest'" and p: "p = label @ ''.'' @ dn"
    and tl: "candidates (label @ ''.'' @ dn) rest' = pre @ c # post"
    by (cases rest) auto
  from Cons.prems(2) p have d: "delegated w n (label @ ''.'' @ dn)"
    and rest: "list_all (delegated w n) pre"
    by simp_all
  from Cons.IH [OF tl rest Cons.prems(3,4)]
  have ih: "fst (zoneWalk w n (label @ ''.'' @ dn) rest') = Inr z"
    "last (snd (zoneWalk w n (label @ ''.'' @ dn) rest')) = TestDNSAnswer z n ''NS''"
    by simp_all
  from tl have "rest' \<noteq> []" by (cases rest') auto
  then have lne: "snd (zoneWalk w n (label @ ''.'' @ dn) rest') \<noteq> []"
    by (rule zoneWalk_log_nonempty)
  from zoneWalk_delegated [OF d, of rest'] ih lne r show ?case
    by auto
qed

text \<open>
  \<^bold>\<open>X1.\<close> The exact-match test of \<^verbatim>\<open>getZoneIdByName\<close> as it is written: when the
  listing is not empty, the lookup fails with \<open>NoExactMatch\<close> exactly when the
  first zone's name is not the queried name and the first zone's name without its
  last character, whatever that character is, is not the queried name either.
\<close>

theorem getZoneIdByName_exact_check:
  assumes "listHostedZonesByName w d = Inr (z # zs)"
  shows "(fst (getZoneIdByName w d) = Inl NoExactMatch) =
           (zone_Name z \<noteq> d \<and> butlast (zone_Name z) \<noteq> d)"
  using assms by (auto simp add: getZoneIdByName_eq)

theorem getZoneIdByName_exact_check_witness:
  "listHostedZonesByName ex_world ''ap.example.com'' =
     Inr [\<lparr>zone_Id = ''/hostedzone/Z3'', zone_Name = ''sap.example.com.''\<rparr>] \<and>
   fst (getZoneIdByName ex_world ''ap.example.com'') = Inl NoExactMatch"
proof -
  have l: "listHostedZonesByName ex_world ''ap.example.com'' =
      Inr [\<lparr>zone_Id = ''/hostedzone/Z3'', zone_Name = ''sap.example.com.''\<rparr>]"
    by (simp add: ex_listHostedZonesByName_def)
  from getZoneIdByName_exact_check [OF l] l show ?thesis by simp
qed

text \<open>
  \<^bold>\<open>X2.\<close> \<^verbatim>\<open>getZoneIdByFQDN\<close> returns the zone of the first candidate, from the
  shortest on, that resolves to a zone in which the \<^verbatim>\<open>NS\<close> test for the name
  answers with no record, provided every shorter candidate resolved to a zone
  with a delegation for the name; the \<^verbatim>\<open>NS\<close> test in the returned zone is the
  last request sent.
\<close>

theorem getZoneIdByFQDN_first_authoritative:
  assumes "fqdn_candidates fqdn = pre @ c # post"
      and "list_all (delegated w (normalizeFQDN fqdn)) pre"
      and "fst (getZoneIdByName w c) = Inr z"
      and "testDNSAnswer w z (normalizeFQDN fqdn) ''NS'' = Inr []"
  shows "fst (getZoneIdByFQDN w fqdn) = Inr z \<and>
         last (snd (getZoneIdByFQDN w fqdn)) = TestDNSAnswer z (normalizeFQDN fqdn) ''NS''"
proof -
  obtain tld rest where
    walk: "getZoneIdByFQDN w fqdn = zoneWalk w (normalizeFQDN fqdn) tld rest"
    and cs: "fqdn_candidates fqdn = candidates tld rest"
    using getZoneIdByFQDN_walk by blast
  from assms(1) cs have "candidates tld rest = pre @ c # post" by simp
  from zoneWalk_first_authoritative [OF this assms(2,3,4)] show ?thesis
    unfolding walk .
qed

theorem getZoneIdByFQDN_first_authoritative_witness:
  "fqdn_candidates ''www.sub.example.com'' =
     [''example.com''] @ ''sub.example.com'' # [''www.sub.example.com''] \<and>
   list_all (delegated ex_world ''www.sub.example.com'') [''example.com''] \<and>
   fst (getZoneIdByFQDN ex_world ''www.sub.example.com'') = Inr ''Z2'' \<and>
   last (snd (getZoneIdByFQDN ex_world ''www.sub.example.com'')) =
     TestDNSAnswer ''Z2'' ''www.sub.example.com'' ''NS''"
proof -
  have a: "fqdn_candidates ''www.sub.example.com'' =
      [''example.com''] @ ''sub.example.com'' # [''www.sub.example.com'']"
    by (simp add: fqdn_candidates_def)
  have b: "list_all (delegated ex_world (normalizeFQDN ''www.sub.example.com'')) [''example.com'']"
    by (simp add: delegated_def ex_testDNSAnswer_def)
  have c: "fst (getZoneIdByName ex_world ''sub.example.com'') = Inr ''Z2''"
    by simp
  have d: "testDNSAnswer ex_world ''Z2'' (normalizeFQDN ''www.sub.example.com'') ''NS'' = Inr []"
    by (simp add: ex_testDNSAnswer_def)
  from getZoneIdByFQDN_first_authoritative [OF a b c d] a b show ?thesis by simp
qed

end
